theory Spec2Isabelle
  imports Main "HOL-Library.Sublist"
begin

section \<open>Text\<close>

text \<open>
  A Python \<open>str\<close> is a sequence of code points. The model keeps one \<open>char\<close> per code
  point and covers the code points below 256 (Latin-1), which include the only
  non-ASCII letters the source names (\<open>\xf1\<close>, \<open>\xe9\<close>, \<open>\xe1\<close>). \<open>length\<close> is
  Python's \<open>len\<close>, and \<open>sublist a b\<close> is Python's \<open>a in b\<close> on strings.
\<close>

definition cp :: "char \<Rightarrow> nat" where
  "cp c = of_char c"

definition isspace :: "char \<Rightarrow> bool" where
  \<comment> \<open>\<open>str.isspace\<close>, which is also the regular expression class \<open>\s\<close> on \<open>str\<close>\<close>
  "isspace c = (cp c \<in> {9, 10, 11, 12, 13, 28, 29, 30, 31, 32, 133, 160})"

definition lower_char :: "char \<Rightarrow> char" where
  "lower_char c =
     (if (65 \<le> cp c \<and> cp c \<le> 90) \<or> (192 \<le> cp c \<and> cp c \<le> 222 \<and> cp c \<noteq> 215)
      then char_of (cp c + 32) else c)"

definition lower :: "string \<Rightarrow> string" where
  "lower s = map lower_char s"

definition strip :: "string \<Rightarrow> string" where
  "strip s = rev (dropWhile isspace (rev (dropWhile isspace s)))"

function collapse_ws :: "string \<Rightarrow> string" where
  \<comment> \<open>\<open>re.sub(r'\s+', ' ', s)\<close>: every maximal run of whitespace becomes one space\<close>
  "collapse_ws [] = []"
| "collapse_ws (c # cs) =
     (if isspace c then CHR '' '' # collapse_ws (dropWhile isspace cs)
      else c # collapse_ws cs)"
  by pat_completeness auto
termination
  by (relation "measure length") (auto intro: le_imp_less_Suc length_dropWhile_le)

definition py_in :: "string \<Rightarrow> string \<Rightarrow> bool" where
  "py_in a b = sublist a b"

section \<open>Fuzzy matcher\<close>

text \<open>
  \<^verbatim>\<open>
  def _normalize(s): return re.sub(r'\s+', ' ', s.lower().strip())
  def _similar(a, b):
      a, b = _normalize(a), _normalize(b)
      return a == b or (len(a) > 3 and (a in b or b in a))
  \<close>
  The same two functions stand in \<open>app/main.py\<close> and \<open>app/ai_bridge.py\<close>.
\<close>

definition normalize :: "string \<Rightarrow> string" where
  "normalize s = collapse_ws (strip (lower s))"

definition similar :: "string \<Rightarrow> string \<Rightarrow> bool" where
  "similar a b =
     (let a' = normalize a; b' = normalize b
      in a' = b' \<or> (length a' > 3 \<and> (py_in a' b' \<or> py_in b' a')))"

text \<open>
  The relation of section 4.1 of the specification, in its words: equal after
  normalization, or else the shorter string has length greater than 3 and is a substring of
  the longer. It is here to be compared with \<open>similar\<close>.
\<close>

definition similar_spec :: "string \<Rightarrow> string \<Rightarrow> bool" where
  "similar_spec a b =
     (let a' = normalize a; b' = normalize b;
          shorter = (if length a' \<le> length b' then a' else b');
          longer = (if length a' \<le> length b' then b' else a')
      in a' = b' \<or> (length shorter > 3 \<and> py_in shorter longer))"

section \<open>Regular expressions\<close>

text \<open>
  The patterns of the source are run by a backtracking matcher with the priorities of
  Python's \<open>re\<close>: a repetition and an optional part are greedy, an alternative tries
  its left branch first, and a group that is backtracked out of loses its capture. The
  matcher threads the character before the position (for \<open>\b\<close> and \<open>^\<close>), the rest
  of the text and the captures, and hands them to a continuation.
\<close>

datatype rx =
    Eps
  | Cls "char \<Rightarrow> bool"
  | Star "char \<Rightarrow> bool"
  | Cat rx rx
  | Alt rx rx
  | Opt rx
  | Grp nat rx
  | WordB
  | Bol

type_synonym caps = "nat \<Rightarrow> string option"

definition isdigit :: "char \<Rightarrow> bool" where
  \<comment> \<open>the class \<open>\d\<close>\<close>
  "isdigit c = (48 \<le> cp c \<and> cp c \<le> 57)"

definition isword :: "char \<Rightarrow> bool" where
  \<comment> \<open>the class \<open>\w\<close>: \<open>str.isalnum\<close> or an underscore\<close>
  "isword c =
     ((48 \<le> cp c \<and> cp c \<le> 57) \<or> (65 \<le> cp c \<and> cp c \<le> 90) \<or> cp c = 95
      \<or> (97 \<le> cp c \<and> cp c \<le> 122)
      \<or> cp c \<in> {170, 178, 179, 181, 185, 186, 188, 189, 190}
      \<or> (192 \<le> cp c \<and> cp c \<le> 214) \<or> (216 \<le> cp c \<and> cp c \<le> 246)
      \<or> (248 \<le> cp c \<and> cp c \<le> 255))"

definition word_before :: "char option \<Rightarrow> bool" where
  "word_before p = (case p of None \<Rightarrow> False | Some x \<Rightarrow> isword x)"

definition word_after :: "string \<Rightarrow> bool" where
  "word_after s = (case s of [] \<Rightarrow> False | x # _ \<Rightarrow> isword x)"

fun star :: "(char \<Rightarrow> bool) \<Rightarrow> (char option \<Rightarrow> string \<Rightarrow> caps \<Rightarrow> 'a option)
    \<Rightarrow> char option \<Rightarrow> string \<Rightarrow> caps \<Rightarrow> 'a option" where
  "star P k p [] c = k p [] c"
| "star P k p (x # xs) c =
     (if P x then (case star P k (Some x) xs c of Some v \<Rightarrow> Some v | None \<Rightarrow> k p (x # xs) c)
      else k p (x # xs) c)"

primrec rmatch :: "rx \<Rightarrow> (char option \<Rightarrow> string \<Rightarrow> caps \<Rightarrow> 'a option)
    \<Rightarrow> char option \<Rightarrow> string \<Rightarrow> caps \<Rightarrow> 'a option" where
  "rmatch Eps k p s c = k p s c"
| "rmatch (Cls P) k p s c =
     (case s of [] \<Rightarrow> None | x # xs \<Rightarrow> if P x then k (Some x) xs c else None)"
| "rmatch (Star P) k p s c = star P k p s c"
| "rmatch (Cat r1 r2) k p s c = rmatch r1 (rmatch r2 k) p s c"
| "rmatch (Alt r1 r2) k p s c =
     (case rmatch r1 k p s c of Some v \<Rightarrow> Some v | None \<Rightarrow> rmatch r2 k p s c)"
| "rmatch (Opt r) k p s c =
     (case rmatch r k p s c of Some v \<Rightarrow> Some v | None \<Rightarrow> k p s c)"
| "rmatch (Grp n r) k p s c =
     rmatch r (\<lambda>p' s' c'. k p' s' (c'(n \<mapsto> take (length s - length s') s))) p s c"
| "rmatch WordB k p s c = (if word_before p \<noteq> word_after s then k p s c else None)"
| "rmatch Bol k p s c = (if p = None then k p s c else None)"

text \<open>A match: the captures, the character before its end and the text after it.\<close>

type_synonym rmatch_result = "caps \<times> char option \<times> string"

definition match_at :: "rx \<Rightarrow> char option \<Rightarrow> string \<Rightarrow> rmatch_result option" where
  "match_at r p s = rmatch r (\<lambda>p' s' c'. Some (c', p', s')) p s (\<lambda>_. None)"

fun search_from :: "rx \<Rightarrow> char option \<Rightarrow> string \<Rightarrow> rmatch_result option" where
  "search_from r p [] = match_at r p []"
| "search_from r p (x # xs) =
     (case match_at r p (x # xs) of Some m \<Rightarrow> Some m | None \<Rightarrow> search_from r (Some x) xs)"

definition re_search :: "rx \<Rightarrow> string \<Rightarrow> rmatch_result option" where
  \<comment> \<open>\<open>pattern.search(s)\<close>: the leftmost match\<close>
  "re_search r s = search_from r None s"

definition re_match :: "rx \<Rightarrow> string \<Rightarrow> rmatch_result option" where
  \<comment> \<open>\<open>pattern.match(s)\<close>: a match at the start\<close>
  "re_match r s = match_at r None s"

definition seq :: "rx list \<Rightarrow> rx" where
  "seq rs = foldr Cat rs Eps"

definition alts :: "rx \<Rightarrow> rx list \<Rightarrow> rx" where
  "alts r rs = foldr (\<lambda>a b. Alt a b) (butlast (r # rs)) (last (r # rs))"

definition ichr :: "char \<Rightarrow> rx" where
  \<comment> \<open>a literal character under \<open>re.IGNORECASE\<close>\<close>
  "ichr a = Cls (\<lambda>x. lower_char x = lower_char a)"

definition istr :: "string \<Rightarrow> rx" where
  "istr w = seq (map ichr w)"

definition plus :: "(char \<Rightarrow> bool) \<Rightarrow> rx" where
  "plus P = Cat (Cls P) (Star P)"

definition py_int :: "string \<Rightarrow> nat" where
  \<comment> \<open>\<open>int(s)\<close> on a string of decimal digits\<close>
  "py_int s = foldl (\<lambda>n c. 10 * n + (cp c - 48)) 0 s"

section \<open>Timestamps\<close>

text \<open>
  A naive \<open>datetime\<close>: the proleptic Gregorian ordinal of its date (\<open>toordinal()\<close>,
  day 1 is Monday 0001-01-01) and its time of day. The bounds of Python's range
  (years 1 to 9999) are not modelled.
\<close>

record datetime =
  ordinal :: int
  hour :: nat
  minute :: nat
  second :: nat
  microsecond :: nat

definition weekday :: "datetime \<Rightarrow> int" where
  "weekday d = (ordinal d + 6) mod 7"

definition replace_time :: "datetime \<Rightarrow> nat \<Rightarrow> nat \<Rightarrow> datetime" where
  \<comment> \<open>\<open>d.replace(hour=h, minute=m, second=0, microsecond=0)\<close>\<close>
  "replace_time d h m = d\<lparr>hour := h, minute := m, second := 0, microsecond := 0\<rparr>"

definition add_days :: "datetime \<Rightarrow> int \<Rightarrow> datetime" where
  "add_days d n = d\<lparr>ordinal := ordinal d + n\<rparr>"

definition add_minutes :: "datetime \<Rightarrow> nat \<Rightarrow> datetime" where
  "add_minutes d n =
     (let t = hour d * 60 + minute d + n
      in d\<lparr>ordinal := ordinal d + int (t div 1440), hour := (t div 60) mod 24,
            minute := t mod 60\<rparr>)"

definition dt_key :: "datetime \<Rightarrow> int \<times> nat \<times> nat \<times> nat \<times> nat" where
  "dt_key d = (ordinal d, hour d, minute d, second d, microsecond d)"

fun key_le :: "int \<times> nat \<times> nat \<times> nat \<times> nat \<Rightarrow> int \<times> nat \<times> nat \<times> nat \<times> nat \<Rightarrow> bool" where
  "key_le (a1, a2, a3, a4, a5) (b1, b2, b3, b4, b5) =
     (a1 < b1 \<or> (a1 = b1 \<and> (a2 < b2 \<or> (a2 = b2 \<and> (a3 < b3 \<or> (a3 = b3 \<and>
        (a4 < b4 \<or> (a4 = b4 \<and> a5 \<le> b5))))))))"

definition dt_le :: "datetime \<Rightarrow> datetime \<Rightarrow> bool" where
  "dt_le a b = key_le (dt_key a) (dt_key b)"

section \<open>Temporal extractor\<close>

text \<open>
  \<^verbatim>\<open>
  _TIME_IN_NOTE_RE = re.compile(
      r'\ba\s+las?\s+(\d{1,2})(?:[:.h](\d{2}))?\s*(?:h(?:oras?)?)?\b', re.IGNORECASE)
  \<close>
\<close>

definition TIME_IN_NOTE_RE :: rx where
  "TIME_IN_NOTE_RE =
     seq [WordB, ichr CHR ''a'', plus isspace, ichr CHR ''l'', ichr CHR ''a'',
          Opt (ichr CHR ''s''), plus isspace,
          Grp 1 (Cat (Cls isdigit) (Opt (Cls isdigit))),
          Opt (Cat (alts (ichr CHR '':'') [ichr CHR ''.'', ichr CHR ''h''])
                   (Grp 2 (Cat (Cls isdigit) (Cls isdigit)))),
          Star isspace,
          Opt (Cat (ichr CHR ''h'') (Opt (Cat (istr ''ora'') (Opt (ichr CHR ''s''))))),
          WordB]"

definition n_tilde :: char where
  \<comment> \<open>the code point \<open>\xf1\<close>\<close>
  "n_tilde = char_of (241::nat)"

definition e_acute :: char where
  \<comment> \<open>the code point \<open>\xe9\<close>\<close>
  "e_acute = char_of (233::nat)"

definition a_acute :: char where
  \<comment> \<open>the code point \<open>\xe1\<close>\<close>
  "a_acute = char_of (225::nat)"

definition WEEKDAYS_BACKEND :: "(string \<times> int) list" where
  \<comment> \<open>the dictionary, in its insertion order, which is the order of iteration\<close>
  "WEEKDAYS_BACKEND =
     [(''lunes'', 0), (''martes'', 1), (''miercoles'', 2),
      (''mi'' @ [e_acute] @ ''rcoles'', 2), (''jueves'', 3), (''viernes'', 4),
      (''sabado'', 5), (''s'' @ [a_acute] @ ''bado'', 5), (''domingo'', 6)]"

fun weekday_offset :: "(string \<times> int) list \<Rightarrow> string \<Rightarrow> int \<Rightarrow> int option" where
  \<comment> \<open>the \<open>for\<close> loop over the weekday names, left at the first name found\<close>
  "weekday_offset [] text_l today = None"
| "weekday_offset ((wday_name, wday_num) # rest) text_l today =
     (if py_in wday_name text_l
      then (let diff = (wday_num - today) mod 7 in Some (if diff > 0 then diff else 7))
      else weekday_offset rest text_l today)"

definition day_offset_of :: "string \<Rightarrow> int \<Rightarrow> int option" where
  "day_offset_of text_l today =
     (if py_in (''ma'' @ [n_tilde] @ ''ana'') text_l \<or> py_in ''manana'' text_l then Some 1
      else if py_in (''pasado ma'' @ [n_tilde] @ ''ana'') text_l \<or> py_in ''pasado manana'' text_l
        then Some 2
      else weekday_offset WEEKDAYS_BACKEND text_l today)"

definition time_in_note :: "string \<Rightarrow> (nat \<times> nat) option" where
  \<comment> \<open>the search and the two \<open>int\<close> conversions; group 1 is part of every match\<close>
  "time_in_note s =
     (case re_search TIME_IN_NOTE_RE s of
        None \<Rightarrow> None
      | Some (c, _) \<Rightarrow>
          (case c 1 of
             None \<Rightarrow> None
           | Some g1 \<Rightarrow> Some (py_int g1, case c 2 of None \<Rightarrow> 0 | Some g2 \<Rightarrow> py_int g2)))"

definition auto_fire_at :: "datetime \<Rightarrow> string \<Rightarrow> datetime option" where
  \<comment> \<open>\<open>_auto_fire_at(note_text)\<close>, with the clock reading \<open>datetime.now()\<close> as \<open>now\<close>\<close>
  "auto_fire_at now note_text =
     (case time_in_note (lower note_text) of
        None \<Rightarrow> None
      | Some (hh, mm) \<Rightarrow>
          if \<not> (hh \<le> 23 \<and> mm \<le> 59) then None
          else
            (let text_l = lower note_text;
                 day_offset = day_offset_of text_l (weekday now);
                 target = replace_time now hh mm
             in Some (case day_offset of
                        Some n \<Rightarrow> add_days target n
                      | None \<Rightarrow> if dt_le target now then add_days target 1 else target)))"

section \<open>Store\<close>

text \<open>
  The rows of the three tables, with the columns the source reads and writes. A column
  that may be \<open>NULL\<close> is an \<open>option\<close>. The store keeps its tables in insertion order,
  which is the order a query without \<open>order_by\<close> is taken to return. Next to the tables
  the state carries the number of commits and the calls made to the two outside
  services, so that a property can speak about them.
\<close>

record entry =
  ident :: nat
  content :: string
  origin :: "string option"
  etype :: string
  summary :: "string option"
  tags :: "string option"
  status :: string
  source_url :: "string option"
  destination :: "string option"
  processed_at :: "datetime option"

record reminder =
  rid :: nat
  message :: string
  fire_at :: datetime
  sent :: bool
  entry_id :: "nat option"

record group_summary =
  group_name :: string
  subgroup_name :: "string option"
  gs_summary :: string
  updated_at :: "datetime option"

record db =
  entries :: "entry list"
  reminders :: "reminder list"
  group_summaries :: "group_summary list"
  next_entry_id :: nat
  next_reminder_id :: nat
  commits :: nat
  summary_requests :: "(string \<times> string option \<times> string list) list"
  mail_attempts :: "(string \<times> datetime \<times> bool) list"

datatype error = IntegrityError | InvalidRequestError | HTTPException nat

text \<open>
  A call that raises returns the exception in place of its result; the store an exception
  leaves behind is not part of the result.
\<close>

text \<open>What the process reads from outside: the clock and its collaborators.\<close>

record env =
  clock_now :: datetime
  clock_utcnow :: datetime
  classify :: "string \<Rightarrow> string"
  export_to_markdown :: "entry \<Rightarrow> string option"
  summarize_response :: "string \<Rightarrow> string option \<Rightarrow> string list \<Rightarrow> string option"
  smtp_ok :: "string \<Rightarrow> datetime \<Rightarrow> bool"
  fromisoformat :: "string \<Rightarrow> datetime option"
  isoformat :: "datetime \<Rightarrow> string"

definition or_empty :: "string option \<Rightarrow> string" where
  \<comment> \<open>\<open>x or ""\<close>\<close>
  "or_empty x = (case x of None \<Rightarrow> [] | Some v \<Rightarrow> v)"

definition truthy :: "string option \<Rightarrow> bool" where
  \<comment> \<open>the truth value of an optional string: neither \<open>None\<close> nor empty\<close>
  "truthy x = (or_empty x \<noteq> [])"

definition or_none :: "string option \<Rightarrow> string option" where
  \<comment> \<open>\<open>x or None\<close>\<close>
  "or_none x = (if truthy x then x else None)"

definition commit :: "db \<Rightarrow> db" where
  "commit d = d\<lparr>commits := Suc (commits d)\<rparr>"

definition query_processed :: "db \<Rightarrow> entry list" where
  \<comment> \<open>\<open>db.query(InboxEntry).filter(InboxEntry.status == "processed").all()\<close>\<close>
  "query_processed d = filter (\<lambda>e. status e = ''processed'') (entries d)"

definition entry_by_id :: "db \<Rightarrow> nat \<Rightarrow> entry option" where
  \<comment> \<open>\<open>db.query(InboxEntry).filter(InboxEntry.id == i).first()\<close>\<close>
  "entry_by_id d i = find (\<lambda>e. ident e = i) (entries d)"

definition entry_by_content :: "db \<Rightarrow> string \<Rightarrow> entry option" where
  \<comment> \<open>\<open>db.query(InboxEntry).filter(InboxEntry.content == c).first()\<close>\<close>
  "entry_by_content d c = find (\<lambda>e. content e = c) (entries d)"

definition delete_entry :: "entry \<Rightarrow> db \<Rightarrow> db" where
  \<comment> \<open>\<open>db.delete(entry)\<close>: the row with the primary key of the object goes\<close>
  "delete_entry e d = d\<lparr>entries := filter (\<lambda>x. ident x \<noteq> ident e) (entries d)\<rparr>"

definition update_entry :: "entry \<Rightarrow> db \<Rightarrow> db" where
  \<comment> \<open>attribute writes on a loaded object reach its row\<close>
  "update_entry e d =
     d\<lparr>entries := map (\<lambda>x. if ident x = ident e then e else x) (entries d)\<rparr>"

definition new_entry :: "string \<Rightarrow> string option \<Rightarrow> string \<Rightarrow> entry" where
  \<comment> \<open>Modelled from the spec: \<open>InboxEntry(content=, origin=, type=)\<close> with the defaults of
      the table declaration \<open>app/models.py\<close>, which is not among the sources; a new
      entry has status \<open>pending\<close> and its other columns are empty\<close>
  "new_entry c orig ty =
     \<lparr>ident = 0, content = c, origin = orig, etype = ty, summary = None, tags = None,
      status = ''pending'', source_url = None, destination = None, processed_at = None\<rparr>"

definition insert_entry :: "entry \<Rightarrow> db \<Rightarrow> error + entry \<times> db" where
  \<comment> \<open>Modelled from the spec: \<open>db.add(e); db.commit()\<close> on a store that keeps
      \<open>content\<close> unique (\<open>UNIQUE(content)\<close> in the words of the source; the table
      declaration \<open>app/models.py\<close> is not among the sources). A second row with the same
      content makes the commit raise \<open>IntegrityError\<close> and nothing is written;
      otherwise the row gets the next primary key\<close>
  "insert_entry e d =
     (if \<exists>x \<in> set (entries d). content x = content e then Inl IntegrityError
      else (let e' = e\<lparr>ident := next_entry_id d\<rparr>
            in Inr (e', commit (d\<lparr>entries := entries d @ [e'],
                                   next_entry_id := Suc (next_entry_id d)\<rparr>))))"

definition insert_reminder :: "string \<Rightarrow> datetime \<Rightarrow> nat option \<Rightarrow> db \<Rightarrow> db" where
  \<comment> \<open>Modelled from the spec: \<open>db.add(Reminder(message=, fire_at=, entry_id=));
      db.commit()\<close>; a new reminder is not yet sent (the table declaration is not
      among the sources)\<close>
  "insert_reminder msg fire eid d =
     commit (d\<lparr>reminders := reminders d @
                 [\<lparr>rid = next_reminder_id d, message = msg, fire_at = fire, sent = False,
                   entry_id = eid\<rparr>],
               next_reminder_id := Suc (next_reminder_id d)\<rparr>)"

section \<open>Tag paths\<close>

fun split_on :: "char \<Rightarrow> string \<Rightarrow> string list" where
  \<comment> \<open>\<open>s.split(sep)\<close> for a separator of one character\<close>
  "split_on sep [] = [[]]"
| "split_on sep (c # cs) =
     (if c = sep then [] # split_on sep cs
      else (case split_on sep cs of [] \<Rightarrow> [[c]] | w # ws \<Rightarrow> (c # w) # ws))"

definition tag_parts :: "string option \<Rightarrow> string list" where
  \<comment> \<open>\<open>[t.strip() for t in (e.tags or "").split(",") if t.strip()]\<close>\<close>
  "tag_parts t = filter (\<lambda>x. x \<noteq> []) (map strip (split_on CHR '','' (or_empty t)))"

section \<open>Delete resolver\<close>

record ai_result =
  makes_sense :: "bool option"
  ai_action :: "string option"
  ai_group :: "string option"
  ai_subgroup :: "string option"
  ai_idea :: "string option"
  ai_remind_at :: "string option"
  ai_url :: "string option"

definition delete_field_ok :: "string \<Rightarrow> string \<Rightarrow> bool" where
  \<comment> \<open>\<open>not pattern or _similar(entry_field, pattern)\<close>\<close>
  "delete_field_ok pat entry_field = (pat = [] \<or> similar entry_field pat)"

definition entry_group :: "entry \<Rightarrow> string" where
  \<comment> \<open>\<open>_normalize(parts[0]) if parts else ""\<close>\<close>
  "entry_group e = (case tag_parts (tags e) of [] \<Rightarrow> [] | g # _ \<Rightarrow> normalize g)"

definition entry_subgroup :: "entry \<Rightarrow> string" where
  \<comment> \<open>\<open>_normalize(parts[1]) if len(parts) > 1 else ""\<close>\<close>
  "entry_subgroup e = (case tag_parts (tags e) of _ # sg # _ \<Rightarrow> normalize sg | _ \<Rightarrow> [])"

definition entry_idea :: "entry \<Rightarrow> string" where
  \<comment> \<open>\<open>_normalize(e.summary or e.content or "")\<close>\<close>
  "entry_idea e = normalize (if truthy (summary e) then or_empty (summary e) else content e)"

definition delete_match :: "string \<Rightarrow> string \<Rightarrow> string \<Rightarrow> entry \<Rightarrow> bool" where
  \<comment> \<open>the body of the loop of \<open>_entries_matching_delete\<close> for one candidate\<close>
  "delete_match idea' group' subgroup' e =
     (let group_ok = delete_field_ok group' (entry_group e);
          subgroup_ok = delete_field_ok subgroup' (entry_subgroup e);
          idea_ok = delete_field_ok idea' (entry_idea e)
      in group_ok \<and> subgroup_ok \<and> idea_ok)"

fun matches_loop :: "string \<Rightarrow> string \<Rightarrow> string \<Rightarrow> entry list \<Rightarrow> entry list \<Rightarrow> entry list" where
  "matches_loop idea' group' subgroup' [] matches = matches"
| "matches_loop idea' group' subgroup' (e # candidates) matches =
     matches_loop idea' group' subgroup' candidates
       (if delete_match idea' group' subgroup' e then matches @ [e] else matches)"

definition entries_matching_delete :: "ai_result \<Rightarrow> db \<Rightarrow> entry list" where
  "entries_matching_delete ai d =
     (let idea' = normalize (or_empty (ai_idea ai));
          group' = normalize (or_empty (ai_group ai));
          subgroup' = normalize (or_empty (ai_subgroup ai));
          candidates = query_processed d
      in matches_loop idea' group' subgroup' candidates [])"

definition find_entry_to_delete :: "ai_result \<Rightarrow> db \<Rightarrow> entry option" where
  "find_entry_to_delete ai d =
     (case entries_matching_delete ai d of [] \<Rightarrow> None | e # _ \<Rightarrow> Some e)"

definition delete_entries_matching :: "ai_result \<Rightarrow> db \<Rightarrow> entry list \<times> db" where
  "delete_entries_matching ai d =
     (let matches = entries_matching_delete ai d;
          d1 = fold delete_entry matches d;
          d2 = (if matches \<noteq> [] then commit d1 else d1)
      in (matches, d2))"

section \<open>Auto-summarizer\<close>

fun ideas_loop :: "string \<Rightarrow> string option \<Rightarrow> entry list \<Rightarrow> string list \<Rightarrow> string list" where
  "ideas_loop group' subgroup' [] ideas = ideas"
| "ideas_loop group' subgroup' (e # all_entries) ideas =
     ideas_loop group' subgroup' all_entries
       (let parts = tag_parts (tags e);
            g = (case parts of [] \<Rightarrow> [] | x # _ \<Rightarrow> x);
            sg = (case parts of _ # y # _ \<Rightarrow> Some y | _ \<Rightarrow> None)
        in if g = group' \<and> sg = subgroup' \<and> truthy (summary e)
           then ideas @ [or_empty (summary e)] else ideas)"

definition get_group_ideas :: "string \<Rightarrow> string option \<Rightarrow> db \<Rightarrow> string list" where
  "get_group_ideas group' subgroup' d = ideas_loop group' subgroup' (query_processed d) []"

definition request_summary :: "env \<Rightarrow> string \<Rightarrow> string option \<Rightarrow> string list \<Rightarrow> db \<Rightarrow> string \<times> db" where
  \<comment> \<open>the call to the summarization service: its answer, or the empty string when the
      call fails; the call is recorded\<close>
  "request_summary ev group' subgroup' ideas d =
     (or_empty (summarize_response ev group' subgroup' ideas),
      d\<lparr>summary_requests := summary_requests d @ [(group', subgroup', ideas)]\<rparr>)"

fun update_first :: "('a \<Rightarrow> bool) \<Rightarrow> ('a \<Rightarrow> 'a) \<Rightarrow> 'a list \<Rightarrow> 'a list" where
  "update_first P f [] = []"
| "update_first P f (x # xs) = (if P x then f x # xs else x # update_first P f xs)"

definition upsert_summary :: "env \<Rightarrow> string \<Rightarrow> string option \<Rightarrow> string \<Rightarrow> db \<Rightarrow> db" where
  \<comment> \<open>the tail of \<open>_maybe_auto_summarize\<close>: the first row of the pair is rewritten, or
      a row is added\<close>
  "upsert_summary ev group' subgroup' text d =
     (let same = (\<lambda>g. group_name g = group' \<and> subgroup_name g = subgroup')
      in case find same (group_summaries d) of
           Some existing \<Rightarrow>
             commit (d\<lparr>group_summaries :=
               update_first same
                 (\<lambda>g. g\<lparr>gs_summary := text, updated_at := Some (clock_utcnow ev)\<rparr>)
                 (group_summaries d)\<rparr>)
         | None \<Rightarrow>
             commit (d\<lparr>group_summaries := group_summaries d @
               [\<lparr>group_name = group', subgroup_name = subgroup', gs_summary = text,
                 updated_at = None\<rparr>]\<rparr>))"

definition maybe_auto_summarize :: "env \<Rightarrow> string \<Rightarrow> string option \<Rightarrow> db \<Rightarrow> db" where
  "maybe_auto_summarize ev group' subgroup' d =
     (let ideas = get_group_ideas group' subgroup' d
      in if length ideas \<le> 10 then d
         else (case request_summary ev group' subgroup' ideas d of
                 (text, d1) \<Rightarrow> if text = [] then d1 else upsert_summary ev group' subgroup' text d1))"

section \<open>Reminder scheduler\<close>

definition send_email_notification :: "env \<Rightarrow> string \<Rightarrow> datetime \<Rightarrow> db \<Rightarrow> db" where
  \<comment> \<open>one delivery attempt; a failure is logged and does not propagate\<close>
  "send_email_notification ev msg fire d =
     d\<lparr>mail_attempts := mail_attempts d @ [(msg, fire, smtp_ok ev msg fire)]\<rparr>"

definition mark_sent :: "reminder \<Rightarrow> db \<Rightarrow> db" where
  \<comment> \<open>\<open>r.sent = True\<close>\<close>
  "mark_sent r d =
     d\<lparr>reminders := map (\<lambda>x. if rid x = rid r then x\<lparr>sent := True\<rparr> else x) (reminders d)\<rparr>"

definition fire_reminder :: "env \<Rightarrow> reminder \<Rightarrow> db \<Rightarrow> db" where
  \<comment> \<open>the body of the loop of \<open>_check_reminders\<close>; \<open>if r.entry_id\<close> holds for a key that
      is neither \<open>None\<close> nor 0\<close>
  "fire_reminder ev r d =
     (let d1 = send_email_notification ev (message r) (fire_at r) d;
          d2 = mark_sent r d1
      in case entry_id r of
           None \<Rightarrow> d2
         | Some i \<Rightarrow>
             if i = 0 then d2
             else (case entry_by_id d2 i of None \<Rightarrow> d2 | Some e \<Rightarrow> delete_entry e d2))"

definition due_reminders :: "datetime \<Rightarrow> db \<Rightarrow> reminder list" where
  "due_reminders now d = filter (\<lambda>r. sent r = False \<and> dt_le (fire_at r) now) (reminders d)"

definition check_reminders :: "env \<Rightarrow> db \<Rightarrow> db" where
  "check_reminders ev d =
     (let now = clock_now ev;
          due = due_reminders now d;
          d1 = fold (fire_reminder ev) due d
      in if due \<noteq> [] then commit d1 else d1)"

section \<open>Note submission\<close>

record note_in =
  note_content :: string
  note_origin :: "string option"
  note_lang :: "string option"

record note_out =
  out_action :: string
  out_entry :: "entry option"
  out_group :: "string option"
  out_subgroup :: "string option"
  out_idea :: "string option"
  out_ai_skipped :: bool
  out_deleted_count :: nat
  out_remind_at :: "string option"

definition NoteOut :: "string \<Rightarrow> note_out" where
  \<comment> \<open>the defaults of the fields of \<open>NoteOut\<close>\<close>
  "NoteOut a =
     \<lparr>out_action = a, out_entry = None, out_group = None, out_subgroup = None,
      out_idea = None, out_ai_skipped = False, out_deleted_count = 0, out_remind_at = None\<rparr>"

definition chr :: "char \<Rightarrow> rx" where
  "chr a = Cls (\<lambda>x. x = a)"

definition str :: "string \<Rightarrow> rx" where
  "str w = seq (map chr w)"

text \<open>
  \<^verbatim>\<open>
  _TIME_FIX_RE = re.compile(r'\b(\d{1,2}) (\d{2})\b')
  \<close>
\<close>

definition TIME_FIX_RE :: rx where
  "TIME_FIX_RE =
     seq [WordB, Grp 1 (Cat (Cls isdigit) (Opt (Cls isdigit))), chr CHR '' '',
          Grp 2 (Cat (Cls isdigit) (Cls isdigit)), WordB]"

function sub_loop :: "rx \<Rightarrow> (caps \<Rightarrow> string \<Rightarrow> string) \<Rightarrow> char option \<Rightarrow> string \<Rightarrow> string" where
  \<comment> \<open>\<open>pattern.sub(repl, s)\<close> from a position on: a match is replaced and the scan goes
      on after it, any other character is copied. The replacement sees the captures
      and the matched text\<close>
  "sub_loop r f p s =
     (case match_at r p s of
        Some (c, p', s') \<Rightarrow>
          if length s' < length s
          then f c (take (length s - length s') s) @ sub_loop r f p' s'
          else (case s of [] \<Rightarrow> f c [] | x # xs \<Rightarrow> f c [] @ x # sub_loop r f (Some x) xs)
      | None \<Rightarrow> (case s of [] \<Rightarrow> [] | x # xs \<Rightarrow> x # sub_loop r f (Some x) xs))"
  by pat_completeness auto
termination
  by (relation "measure (\<lambda>(r, f, p, s). length s)") auto

definition re_sub :: "rx \<Rightarrow> (caps \<Rightarrow> string \<Rightarrow> string) \<Rightarrow> string \<Rightarrow> string" where
  "re_sub r f s = sub_loop r f None s"

definition time_repl :: "caps \<Rightarrow> string \<Rightarrow> string" where
  \<comment> \<open>\<open>_repl\<close>\<close>
  "time_repl c whole =
     (case (c 1, c 2) of
        (Some g1, Some g2) \<Rightarrow>
          if py_int g1 \<le> 23 \<and> py_int g2 \<le> 59 then g1 @ '':'' @ g2 else whole
      | _ \<Rightarrow> whole)"

definition fix_time_colons :: "string \<Rightarrow> string" where
  "fix_time_colons text = re_sub TIME_FIX_RE time_repl text"

text \<open>
  \<^verbatim>\<open>
  _CMD_VERBS = re.compile(
      r'^(a[..n]ade|agrega|crea|abre|a[..n]adir|agregar|crear|abrir|pon|poner|mete|meter)\b',
      re.IGNORECASE | re.UNICODE)
  \<close>
  where the two code points written \<open>..\<close> are, in the source file as it stands, the code
  points 195 and 177.
\<close>

definition an_class :: rx where
  "an_class = alts (ichr (char_of (195::nat))) [ichr (char_of (177::nat)), ichr CHR ''n'']"

definition CMD_VERBS :: rx where
  "CMD_VERBS =
     seq [Bol,
          Grp 1 (alts (seq [ichr CHR ''a'', an_class, istr ''ade''])
                   [istr ''agrega'', istr ''crea'', istr ''abre'',
                    seq [ichr CHR ''a'', an_class, istr ''adir''],
                    istr ''agregar'', istr ''crear'', istr ''abrir'', istr ''pon'',
                    istr ''poner'', istr ''mete'', istr ''meter'']),
          WordB]"

text \<open>The pattern \<^verbatim>\<open>https?://\S+\<close>, with the whole match as group 0.\<close>

definition URL_RE :: rx where
  "URL_RE =
     Grp 0 (seq [str ''http'', Opt (chr CHR ''s''), str ''://'',
                 plus (\<lambda>x. \<not> isspace x)])"

definition rstrip_chars :: "string \<Rightarrow> string \<Rightarrow> string" where
  \<comment> \<open>\<open>s.rstrip(chars)\<close>\<close>
  "rstrip_chars cs s = rev (dropWhile (\<lambda>x. x \<in> set cs) (rev s))"

definition find_url :: "string \<Rightarrow> string option" where
  "find_url s =
     (case re_search URL_RE s of
        None \<Rightarrow> None
      | Some (c, _) \<Rightarrow> (case c 0 of None \<Rightarrow> None | Some u \<Rightarrow> Some (rstrip_chars ''.,)>'' u)))"

definition ai_result_to_entry_fields :: "ai_result \<Rightarrow> string \<Rightarrow> string \<times> string \<times> string option" where
  \<comment> \<open>the dictionary with the keys \<open>summary\<close>, \<open>tags\<close> and \<open>source_url\<close>, as a triple\<close>
  "ai_result_to_entry_fields ai c =
     (let idea' = or_empty (ai_idea ai);
          group' = or_empty (ai_group ai);
          subgroup' = or_empty (ai_subgroup ai);
          tags' = (if subgroup' \<noteq> [] then group' @ '','' @ subgroup' else group')
      in (idea', tags', or_none (ai_url ai)))"

record add_fields =
  f_summary :: string
  f_entry_type :: string
  f_tags :: string
  f_source_url :: "string option"
  f_content_to_store :: string

definition prepare_add :: "env \<Rightarrow> ai_result \<Rightarrow> note_in \<Rightarrow> add_fields" where
  \<comment> \<open>\<open>_process_single_ai\<close> from \<open>fields = ...\<close> to \<open>content_to_store = ...\<close>\<close>
  "prepare_add ev ai note =
     (case ai_result_to_entry_fields ai (note_content note) of
        (fsum, ftags, furl) \<Rightarrow>
          (let summary0 = fix_time_colons fsum;
               entry_type = classify ev (note_content note);
               source_url' = (case or_none furl of
                                Some u \<Rightarrow> Some u
                              | None \<Rightarrow> find_url (note_content note));
               summary1 = (if summary0 \<noteq> [] \<and> normalize summary0 = normalize (note_content note)
                           then [] else summary0);
               summary2 = (if summary1 \<noteq> [] \<and> re_match CMD_VERBS (strip summary1) \<noteq> None
                           then [] else summary1);
               content_to_store = (if summary2 \<noteq> [] then summary2 else note_content note)
           in \<lparr>f_summary = summary2, f_entry_type = entry_type, f_tags = ftags,
               f_source_url = source_url', f_content_to_store = content_to_store\<rparr>))"

definition existing_dup :: "db \<Rightarrow> string \<Rightarrow> entry list" where
  \<comment> \<open>\<open>db.query(InboxEntry).filter(InboxEntry.status == "processed",
      InboxEntry.tags == tags).all()\<close>\<close>
  "existing_dup d tags' = filter (\<lambda>e. status e = ''processed'' \<and> tags e = Some tags') (entries d)"

definition dedup_guard :: "db \<Rightarrow> string \<Rightarrow> string \<Rightarrow> entry option" where
  \<comment> \<open>the loop over \<open>existing_dup\<close>, left at the first similar entry\<close>
  "dedup_guard d tags' summary' =
     find (\<lambda>dup. similar (or_empty (summary dup)) summary') (existing_dup d tags')"

definition add_out :: "ai_result \<Rightarrow> string \<Rightarrow> entry \<Rightarrow> note_out" where
  \<comment> \<open>\<open>NoteOut(action="add", entry=e, group=ai.get("group"),
      subgroup=ai.get("subgroup"), idea=summary or None)\<close>\<close>
  "add_out ai summary' e =
     (NoteOut ''add'')\<lparr>out_entry := Some e, out_group := ai_group ai,
        out_subgroup := ai_subgroup ai, out_idea := or_none (Some summary')\<rparr>"

definition export_entry :: "env \<Rightarrow> entry \<Rightarrow> db \<Rightarrow> entry \<times> db" where
  \<comment> \<open>the \<open>try\<close> block around \<open>export_to_markdown\<close>: when the export raises, the entry
      stays as it was inserted\<close>
  "export_entry ev e d =
     (case export_to_markdown ev e of
        None \<Rightarrow> (e, d)
      | Some dest \<Rightarrow>
          (let e' = e\<lparr>destination := Some dest, status := ''processed'',
                      processed_at := Some (clock_utcnow ev)\<rparr>
           in (e', commit (update_entry e' d))))"

definition add_pipeline :: "env \<Rightarrow> ai_result \<Rightarrow> note_in \<Rightarrow> db \<Rightarrow> error + note_out \<times> db" where
  \<comment> \<open>\<open>_process_single_ai\<close> from \<open>fields = ...\<close> to its end\<close>
  "add_pipeline ev ai note d =
     (let f = prepare_add ev ai note
      in case dedup_guard d (f_tags f) (f_summary f) of
           Some dup \<Rightarrow> Inr (add_out ai (f_summary f) dup, d)
         | None \<Rightarrow>
             (let db_entry = (new_entry (f_content_to_store f) (note_origin note) (f_entry_type f))
                               \<lparr>summary := Some (f_summary f), tags := Some (f_tags f),
                                source_url := f_source_url f\<rparr>
              in case insert_entry db_entry d of
                   Inl _ \<Rightarrow>
                     (case entry_by_content d (f_content_to_store f) of
                        Some existing \<Rightarrow> Inr (add_out ai (f_summary f) existing, d)
                      | None \<Rightarrow> Inl (HTTPException 409))
                 | Inr (e1, d1) \<Rightarrow>
                     (case export_entry ev e1 d1 of
                        (e2, d2) \<Rightarrow>
                          (let d3 = (if truthy (ai_group ai)
                                     then maybe_auto_summarize ev (or_empty (ai_group ai))
                                            (ai_subgroup ai) d2
                                     else d2)
                           in Inr (add_out ai (f_summary f) e2, d3)))))"

text \<open>
  In the branch of the action \<open>delete\<close> the source calls \<open>db.refresh(first)\<close> on the first
  entry that \<open>delete_entries_matching\<close> has just deleted and committed. The session
  refuses to reload an object whose row is gone: the call raises \<open>InvalidRequestError\<close>.
  So the branch returns its outcome only when nothing matched.
\<close>

definition process_single_ai :: "env \<Rightarrow> ai_result \<Rightarrow> note_in \<Rightarrow> db \<Rightarrow> error + note_out \<times> db" where
  "process_single_ai ev ai note d =
     (if makes_sense ai = Some False then Inr (NoteOut ''ignored'', d)
      else
        (let action = (case ai_action ai of None \<Rightarrow> ''add'' | Some a \<Rightarrow> a)
         in if action = ''delete'' then
              (case delete_entries_matching ai d of
                 (deleted, d1) \<Rightarrow>
                   (let first = (case deleted of [] \<Rightarrow> None | e # _ \<Rightarrow> Some e)
                    in if first \<noteq> None then Inl InvalidRequestError
                       else Inr ((NoteOut ''delete'')
                                   \<lparr>out_entry := first,
                                    out_group := ai_group ai, out_subgroup := ai_subgroup ai,
                                    out_idea := ai_idea ai,
                                    out_deleted_count := length deleted\<rparr>, d1)))
            else if action = ''remind'' then
              (let fire = (case or_none (ai_remind_at ai) of
                             None \<Rightarrow> add_minutes (clock_now ev) 5
                           | Some t \<Rightarrow>
                               (case fromisoformat ev t of
                                  Some parsed \<Rightarrow> parsed
                                | None \<Rightarrow> add_minutes (clock_now ev) 5));
                   msg = (if truthy (ai_idea ai) then or_empty (ai_idea ai) else note_content note)
               in Inr ((NoteOut ''remind'')
                         \<lparr>out_group := Some ''recordatorios'', out_idea := Some msg,
                          out_remind_at := Some (isoformat ev fire)\<rparr>,
                       insert_reminder msg fire None d))
            else add_pipeline ev ai note d))"

fun process_all :: "env \<Rightarrow> ai_result list \<Rightarrow> note_in \<Rightarrow> db \<Rightarrow> error + note_out list \<times> db" where
  \<comment> \<open>\<open>[_process_single_ai(ai, note, db) for ai in ai_list]\<close>\<close>
  "process_all ev [] note d = Inr ([], d)"
| "process_all ev (ai # ais) note d =
     (case process_single_ai ev ai note d of
        Inl err \<Rightarrow> Inl err
      | Inr (r, d1) \<Rightarrow>
          (case process_all ev ais note d1 of
             Inl err \<Rightarrow> Inl err
           | Inr (rs, d2) \<Rightarrow> Inr (r # rs, d2)))"

definition maybe_auto_reminder :: "env \<Rightarrow> string \<Rightarrow> note_out list \<Rightarrow> db \<Rightarrow> note_out option \<times> db" where
  "maybe_auto_reminder ev c add_results d =
     (case auto_fire_at (clock_now ev) c of
        None \<Rightarrow> (None, d)
      | Some fire \<Rightarrow>
          (let linked = find (\<lambda>r. out_action r = ''add'' \<and> truthy (out_idea r) \<and> out_entry r \<noteq> None)
                             add_results;
               msg = (case linked of
                        Some l \<Rightarrow> out_idea l
                      | None \<Rightarrow>
                          (case find (\<lambda>r. out_action r = ''add'' \<and> truthy (out_idea r)) add_results of
                             Some r \<Rightarrow> out_idea r
                           | None \<Rightarrow> None));
               eid = (case linked of
                        Some l \<Rightarrow> (case out_entry l of Some e \<Rightarrow> Some (ident e) | None \<Rightarrow> None)
                      | None \<Rightarrow> None)
           in if \<not> truthy msg then (None, d)
              else (Some ((NoteOut ''remind'')
                            \<lparr>out_group := Some ''recordatorios'', out_idea := msg,
                             out_remind_at := Some (isoformat ev fire)\<rparr>),
                    insert_reminder (or_empty msg) fire eid d)))"

definition add_note :: "env \<Rightarrow> ai_result list option \<Rightarrow> note_in \<Rightarrow> db \<Rightarrow> error + note_out list \<times> db" where
  \<comment> \<open>\<open>add_note\<close>; \<open>ai_list\<close> is what \<open>classify_with_ai\<close> returned: the list of the
      provider, or \<open>None\<close> when the provider could not be reached\<close>
  "add_note ev ai_list note d =
     (case ai_list of
        None \<Rightarrow>
          (let entry_type = classify ev (note_content note);
               db_entry = new_entry (note_content note) (note_origin note) entry_type
           in case insert_entry db_entry d of
                Inl err \<Rightarrow> Inl err
              | Inr (e1, d1) \<Rightarrow>
                  Inr ([(NoteOut ''add'')\<lparr>out_entry := Some e1, out_ai_skipped := True\<rparr>], d1))
      | Some ais \<Rightarrow>
          (case process_all ev ais note d of
             Inl err \<Rightarrow> Inl err
           | Inr (results, d1) \<Rightarrow>
               (let has_add = (\<exists>r \<in> set results. out_action r = ''add'');
                    has_remind = (\<exists>r \<in> set results. out_action r = ''remind'')
                in if has_add \<and> \<not> has_remind
                   then (case maybe_auto_reminder ev (note_content note) results d1 of
                           (Some auto, d2) \<Rightarrow> Inr (results @ [auto], d2)
                         | (None, d2) \<Rightarrow> Inr (results, d2))
                   else Inr (results, d1))))"

section \<open>Example inputs\<close>

definition monday_8h :: datetime where
  \<comment> \<open>Monday 2024-01-01 08:00\<close>
  "monday_8h = \<lparr>ordinal = 738886, hour = 8, minute = 0, second = 0, microsecond = 0\<rparr>"

definition friday_10h :: datetime where
  \<comment> \<open>Friday 2024-01-05 10:00\<close>
  "friday_10h = \<lparr>ordinal = 738890, hour = 10, minute = 0, second = 0, microsecond = 0\<rparr>"

definition manana :: string where
  "manana = ''ma'' @ [n_tilde] @ ''ana''"

definition pasado_manana :: string where
  "pasado_manana = ''pasado ma'' @ [n_tilde] @ ''ana''"

definition mk_entry :: "nat \<Rightarrow> string \<Rightarrow> string \<Rightarrow> string \<Rightarrow> entry" where
  \<comment> \<open>a stored note whose summary is its content\<close>
  "mk_entry i c tg st =
     \<lparr>ident = i, content = c, origin = Some ''manual'', etype = ''note'', summary = Some c,
      tags = Some tg, status = st, source_url = None, destination = None,
      processed_at = None\<rparr>"

definition empty_db :: db where
  "empty_db =
     \<lparr>entries = [], reminders = [], group_summaries = [], next_entry_id = 1,
      next_reminder_id = 1, commits = 0, summary_requests = [], mail_attempts = []\<rparr>"

definition shopping_db :: db where
  "shopping_db =
     empty_db\<lparr>entries :=
                [mk_entry 1 ''comprar leche'' ''casa,compras'' ''processed'',
                 mk_entry 2 ''Comprar  LECHE desnatada'' ''trabajo'' ''processed'',
                 mk_entry 3 ''llamar a Ana'' ''casa'' ''processed'',
                 mk_entry 4 ''comprar leche de soja'' ''casa'' ''pending''],
              next_entry_id := 5\<rparr>"

definition ai_empty :: ai_result where
  "ai_empty =
     \<lparr>makes_sense = Some True, ai_action = None, ai_group = None, ai_subgroup = None,
      ai_idea = None, ai_remind_at = None, ai_url = None\<rparr>"

definition ai_delete_all :: ai_result where
  "ai_delete_all = ai_empty\<lparr>ai_action := Some ''delete'', ai_idea := Some []\<rparr>"

definition env_fail :: env where
  \<comment> \<open>an environment whose mail host and summarization service are down\<close>
  "env_fail =
     \<lparr>clock_now = monday_8h, clock_utcnow = monday_8h, classify = (\<lambda>_. ''note''),
      export_to_markdown = (\<lambda>_. Some ''brain.md''),
      summarize_response = (\<lambda>_ _ _. None), smtp_ok = (\<lambda>_ _. False),
      fromisoformat = (\<lambda>_. None), isoformat = (\<lambda>_. ''2024'')\<rparr>"

definition remind_db :: db where
  "remind_db =
     shopping_db\<lparr>reminders :=
       [\<lparr>rid = 1, message = ''leche'',
         fire_at = \<lparr>ordinal = 738885, hour = 9, minute = 0, second = 0, microsecond = 0\<rparr>,
         sent = False, entry_id = Some 1\<rparr>,
        \<lparr>rid = 2, message = ''Ana'', fire_at = friday_10h, sent = False, entry_id = Some 3\<rparr>],
       next_reminder_id := 3\<rparr>"

definition env_ok :: env where
  \<comment> \<open>an environment whose collaborators all answer\<close>
  "env_ok =
     \<lparr>clock_now = monday_8h, clock_utcnow = monday_8h, classify = (\<lambda>_. ''note''),
      export_to_markdown = (\<lambda>_. Some ''brain.md''),
      summarize_response = (\<lambda>_ _ _. Some ''resumen''), smtp_ok = (\<lambda>_ _. True),
      fromisoformat = (\<lambda>_. None), isoformat = (\<lambda>_. ''2024'')\<rparr>"

definition ideas_db :: "nat \<Rightarrow> db" where
  \<comment> \<open>a store with \<open>n\<close> processed ideas under the group \<open>ideas\<close>\<close>
  "ideas_db n =
     empty_db\<lparr>entries := map (\<lambda>i. mk_entry i (replicate i CHR ''x'') ''ideas'' ''processed'')
                              [1..<Suc n],
              next_entry_id := Suc n\<rparr>"

definition pantry_db :: db where
  \<comment> \<open>three processed entries and a pending one; the summary of an entry is not its
      content, and the third entry has neither summary nor tags\<close>
  "pantry_db =
     empty_db\<lparr>entries :=
                [(mk_entry 1 ''n1'' ''casa,compras'' ''processed'')\<lparr>summary := Some ''pan''\<rparr>,
                 (mk_entry 2 ''n2'' ''casa'' ''processed'')\<lparr>summary := Some ''Pasta''\<rparr>,
                 (mk_entry 3 ''tarta'' [] ''processed'')\<lparr>summary := None, tags := None\<rparr>,
                 (mk_entry 4 ''n4'' ''casa'' ''pending'')\<lparr>summary := Some ''patata''\<rparr>],
              next_entry_id := 5\<rparr>"

definition ai_delete_a :: ai_result where
  \<comment> \<open>a delete result whose only pattern field is the idea \<open>a\<close>\<close>
  "ai_delete_a = ai_empty\<lparr>ai_action := Some ''delete'', ai_idea := Some ''a''\<rparr>"

definition ai_remind_bad :: ai_result where
  \<comment> \<open>a remind result whose timestamp does not parse\<close>
  "ai_remind_bad =
     ai_empty\<lparr>ai_action := Some ''remind'', ai_idea := Some ''tomar pastilla'',
              ai_remind_at := Some ''pronto''\<rparr>"

definition ai_remind_bare :: ai_result where
  \<comment> \<open>a remind result with neither timestamp nor idea\<close>
  "ai_remind_bare = ai_empty\<lparr>ai_action := Some ''remind''\<rparr>"

definition note_pill :: note_in where
  "note_pill = \<lparr>note_content = ''pastilla'', note_origin = Some ''manual'', note_lang = Some ''es''\<rparr>"

definition note_milk :: note_in where
  \<comment> \<open>a note whose content is the content of the first entry of \<open>shopping_db\<close>\<close>
  "note_milk = \<lparr>note_content = ''comprar leche'', note_origin = Some ''manual'', note_lang = Some ''es''\<rparr>"






section \<open>Properties of the fuzzy matcher\<close>


text \<open>
  C2. The matcher is reflexive (\<open>similar_refl\<close>), but it is not symmetric: the length
  guard reads the first argument only, so a short second argument contained in a long
  first one is similar, and the same pair the other way round is not.
\<close>

theorem similar_not_symmetric:
  "similar ''abcdef'' ''ab'' = True \<and> similar ''ab'' ''abcdef'' = False"
  by code_simp

section \<open>Properties of the temporal extractor\<close>

lemma manana_in_pasado:
  assumes "py_in (''pasado ma'' @ [n_tilde] @ ''ana'') t"
  shows "py_in (''ma'' @ [n_tilde] @ ''ana'') t"
proof -
  have "sublist (''ma'' @ [n_tilde] @ ''ana'') (''pasado ma'' @ [n_tilde] @ ''ana'')"
    by code_simp
  from this assms show ?thesis
    unfolding py_in_def by (rule sublist_order.order.trans)
qed

lemma manana_ascii_in_pasado:
  assumes "py_in ''pasado manana'' t"
  shows "py_in ''manana'' t"
proof -
  have "sublist ''manana'' ''pasado manana''"
    by code_simp
  from this assms show ?thesis
    unfolding py_in_def by (rule sublist_order.order.trans)
qed

text \<open>
  The second branch of the day resolution is never taken: a text with the keyword for
  the day after tomorrow holds the keyword for tomorrow, which is tested first.
\<close>

lemma pasado_manana_offset:
  assumes "py_in (''pasado ma'' @ [n_tilde] @ ''ana'') t \<or> py_in ''pasado manana'' t"
  shows "day_offset_of t today = Some 1"
proof -
  from assms have "py_in (''ma'' @ [n_tilde] @ ''ana'') t \<or> py_in ''manana'' t"
    using manana_in_pasado manana_ascii_in_pasado by blast
  then show ?thesis
    unfolding day_offset_of_def by (rule if_P)
qed

lemma time_pasado:
  "time_in_note (lower (''pasado ma'' @ [n_tilde] @ ''ana a las 9:30'')) = Some (9, 30)"
  by code_simp

lemma in_pasado:
  "py_in (''ma'' @ [n_tilde] @ ''ana'') (lower (''pasado ma'' @ [n_tilde] @ ''ana a las 9:30''))"
  by code_simp

text \<open>
  C3. For the note \<open>pasado ma\xf1ana a las 9:30\<close> the extractor returns the time 09:30
  of the day after \<open>now\<close>, one day and not two, whatever \<open>now\<close> is.
\<close>

theorem pasado_manana_resolves_one_day:
  "auto_fire_at now (''pasado ma'' @ [n_tilde] @ ''ana a las 9:30'')
     = Some (add_days (replace_time now 9 30) 1)"
proof -
  have "(9::nat) \<le> 23 \<and> (30::nat) \<le> 59" by simp
  then show ?thesis
    unfolding auto_fire_at_def day_offset_of_def time_pasado
    using in_pasado by (simp only: Let_def option.case prod.case if_True if_False simp_thms)
qed

lemma weekday_offset_first:
  "i < length tbl \<Longrightarrow> tbl ! i = (name, w) \<Longrightarrow> py_in name t
   \<Longrightarrow> \<forall>p \<in> set (take i tbl). \<not> py_in (fst p) t
   \<Longrightarrow> weekday_offset tbl t today
       = Some (if (w - today) mod 7 > 0 then (w - today) mod 7 else 7)"
proof (induction tbl arbitrary: i)
  case Nil
  then show ?case by simp
next
  case (Cons a tbl)
  obtain n v where a: "a = (n, v)" by (cases a)
  show ?case
  proof (cases i)
    case 0
    with Cons.prems a show ?thesis by (simp add: Let_def)
  next
    case (Suc k)
    from Cons.prems(4) Suc a have "\<not> py_in n t" by simp
    moreover have "weekday_offset tbl t today
       = Some (if (w - today) mod 7 > 0 then (w - today) mod 7 else 7)"
    proof (rule Cons.IH [of k])
      show "k < length tbl" using Cons.prems(1) Suc by simp
      show "tbl ! k = (name, w)" using Cons.prems(2) Suc by simp
      show "py_in name t" by (rule Cons.prems(3))
      show "\<forall>p \<in> set (take k tbl). \<not> py_in (fst p) t" using Cons.prems(4) Suc by simp
    qed
    ultimately show ?thesis using a by simp
  qed
qed

lemma weekdays_range: "(name, w) \<in> set WEEKDAYS_BACKEND \<Longrightarrow> 0 \<le> w \<and> w \<le> 6"
  by (auto simp: WEEKDAYS_BACKEND_def)

lemma next_weekday_arith:
  fixes w ord :: int
  assumes "0 \<le> w" "w \<le> 6"
  defines "d \<equiv> (if (w - (ord + 6) mod 7) mod 7 > 0 then (w - (ord + 6) mod 7) mod 7 else 7)"
  shows "1 \<le> d \<and> d \<le> 7 \<and> (ord + d + 6) mod 7 = w"
proof -
  define r where "r = (w - (ord + 6) mod 7) mod 7"
  have r: "0 \<le> r" "r < 7" by (simp_all add: r_def)
  have d: "d = (if r > 0 then r else 7)" by (simp add: d_def r_def)
  have e: "(ord + r + 6) mod 7 = w mod 7"
    unfolding r_def
    by (metis (no_types, opaque_lifting) add.assoc add.commute diff_add_cancel mod_add_left_eq mod_add_right_eq)
  have w: "w mod 7 = w" using assms(1,2) by simp
  show ?thesis
  proof (cases "r > 0")
    case True
    then show ?thesis using d r e w by simp
  next
    case False
    then have z: "r = 0" using r by simp
    with e have "(ord + 6) mod 7 = w mod 7" by simp
    moreover have "ord + 7 + 6 = (ord + 6) + 7" by simp
    then have "(ord + 7 + 6) mod 7 = (ord + 6) mod 7" by (simp only: mod_add_self2)
    ultimately have "(ord + 7 + 6) mod 7 = w mod 7" by simp
    with z d w show ?thesis by simp
  qed
qed

text \<open>
  C9, as stated, fails: a note that names a weekday and a time but also holds the word
  \<open>ma\xf1ana\<close> (as in "Friday in the morning") is resolved to tomorrow. Asked on Monday
  2024-01-01 at 08:00, \<open>el viernes por la ma\xf1ana a las 9:30\<close> gives Tuesday
  2024-01-02, whose weekday is 1, not the Friday (weekday 4) three days later.
\<close>

theorem weekday_named_with_manana_counterexample:
  "py_in ''viernes'' (lower (''el viernes por la ma'' @ [n_tilde] @ ''ana a las 9:30''))
   \<and> time_in_note (lower (''el viernes por la ma'' @ [n_tilde] @ ''ana a las 9:30'')) = Some (9, 30)
   \<and> auto_fire_at \<lparr>ordinal = 738886, hour = 8, minute = 0, second = 0, microsecond = 0\<rparr>
        (''el viernes por la ma'' @ [n_tilde] @ ''ana a las 9:30'')
      = Some \<lparr>ordinal = 738887, hour = 9, minute = 30, second = 0, microsecond = 0\<rparr>
   \<and> weekday \<lparr>ordinal = 738887, hour = 9, minute = 30, second = 0, microsecond = 0\<rparr> = 1"
  by code_simp

text \<open>
  C9, amended. When the lowered note text holds a valid time pattern, holds neither
  \<open>ma\xf1ana\<close> nor \<open>manana\<close>, and \<open>name\<close> is the first weekday name of the table found
  in it, the extractor returns the extracted time of day on the next day strictly
  after today whose weekday is that of \<open>name\<close>: the day offset is
  \<open>(w - today) mod 7\<close> when that is positive and 7 otherwise, so it lies between 1 and 7.
\<close>

theorem weekday_resolution:
  assumes "time_in_note (lower t) = Some (h, m)" and "h \<le> 23" and "m \<le> 59"
    and "\<not> py_in (''ma'' @ [n_tilde] @ ''ana'') (lower t)" and "\<not> py_in ''manana'' (lower t)"
    and "i < length WEEKDAYS_BACKEND" and "WEEKDAYS_BACKEND ! i = (name, w)"
    and "py_in name (lower t)"
    and "\<forall>p \<in> set (take i WEEKDAYS_BACKEND). \<not> py_in (fst p) (lower t)"
  shows "\<exists>d. auto_fire_at now t = Some (add_days (replace_time now h m) d)
           \<and> d = (if (w - weekday now) mod 7 > 0 then (w - weekday now) mod 7 else 7)
           \<and> 1 \<le> d \<and> d \<le> 7
           \<and> weekday (add_days (replace_time now h m) d) = w"
proof -
  define d where "d = (if (w - weekday now) mod 7 > 0 then (w - weekday now) mod 7 else 7)"
  have n1: "\<not> (py_in (''ma'' @ [n_tilde] @ ''ana'') (lower t) \<or> py_in ''manana'' (lower t))"
    using assms(4) assms(5) by blast
  have n2: "\<not> (py_in (''pasado ma'' @ [n_tilde] @ ''ana'') (lower t)
               \<or> py_in ''pasado manana'' (lower t))"
    using assms(4) assms(5) manana_in_pasado manana_ascii_in_pasado by blast
  have wo: "weekday_offset WEEKDAYS_BACKEND (lower t) (weekday now) = Some d"
    unfolding d_def by (rule weekday_offset_first [OF assms(6) assms(7) assms(8) assms(9)])
  have off: "day_offset_of (lower t) (weekday now) = Some d"
    unfolding day_offset_of_def by (simp only: n1 n2 if_False wo)
  have ok: "h \<le> 23 \<and> m \<le> 59"
    using assms(2) assms(3) by blast
  have res: "auto_fire_at now t = Some (add_days (replace_time now h m) d)"
    unfolding auto_fire_at_def
    by (simp only: assms(1) option.case prod.case ok simp_thms if_False Let_def off)
  have "(name, w) \<in> set WEEKDAYS_BACKEND"
    using assms(6) assms(7) nth_mem [of i WEEKDAYS_BACKEND] by simp
  then have w: "0 \<le> w" "w \<le> 6"
    using weekdays_range by blast+
  have ar: "1 \<le> d \<and> d \<le> 7 \<and> (ordinal now + d + 6) mod 7 = w"
    unfolding d_def weekday_def by (rule next_weekday_arith [OF w])
  have wk: "weekday (add_days (replace_time now h m) d) = (ordinal now + d + 6) mod 7"
    by (simp add: weekday_def add_days_def replace_time_def)
  from ar have a1: "1 \<le> d" and a2: "d \<le> 7" and a3: "(ordinal now + d + 6) mod 7 = w"
    by blast+
  from wk a3 have wk': "weekday (add_days (replace_time now h m) d) = w"
    by (simp only:)
  from res d_def a1 a2 wk' show ?thesis
    by blast
qed

text \<open>
  Asked on Friday 2024-01-05 at 10:00, \<open>el viernes a las 9:30\<close> gives the Friday one
  week later.
\<close>

theorem weekday_resolution_witness:
  "time_in_note (lower ''el viernes a las 9:30'') = Some (9, 30)
   \<and> \<not> py_in (''ma'' @ [n_tilde] @ ''ana'') (lower ''el viernes a las 9:30'')
   \<and> \<not> py_in ''manana'' (lower ''el viernes a las 9:30'')
   \<and> WEEKDAYS_BACKEND ! 5 = (''viernes'', 4)
   \<and> py_in ''viernes'' (lower ''el viernes a las 9:30'')
   \<and> list_all (\<lambda>p. \<not> py_in (fst p) (lower ''el viernes a las 9:30'')) (take 5 WEEKDAYS_BACKEND)
   \<and> auto_fire_at friday_10h ''el viernes a las 9:30''
       = Some (add_days (replace_time friday_10h 9 30) 7)
   \<and> weekday (add_days (replace_time friday_10h 9 30) 7) = 4"
proof -
  have h1: "time_in_note (lower ''el viernes a las 9:30'') = Some (9, 30)" by code_simp
  have h2: "(9::nat) \<le> 23" by simp
  have h3: "(30::nat) \<le> 59" by simp
  have h4: "\<not> py_in (''ma'' @ [n_tilde] @ ''ana'') (lower ''el viernes a las 9:30'')" by code_simp
  have h5: "\<not> py_in ''manana'' (lower ''el viernes a las 9:30'')" by code_simp
  have h6: "5 < length WEEKDAYS_BACKEND" by code_simp
  have h7: "WEEKDAYS_BACKEND ! 5 = (''viernes'', 4)" by code_simp
  have h8: "py_in ''viernes'' (lower ''el viernes a las 9:30'')" by code_simp
  have h9: "\<forall>p \<in> set (take 5 WEEKDAYS_BACKEND). \<not> py_in (fst p) (lower ''el viernes a las 9:30'')"
    by code_simp
  have wd: "(if (4 - weekday friday_10h) mod 7 > 0 then (4 - weekday friday_10h) mod 7 else 7) = 7"
    by code_simp
  from weekday_resolution [OF h1 h2 h3 h4 h5 h6 h7 h8 h9, of friday_10h]
  have "auto_fire_at friday_10h ''el viernes a las 9:30''
          = Some (add_days (replace_time friday_10h 9 30) 7)
        \<and> weekday (add_days (replace_time friday_10h 9 30) 7) = 4"
    unfolding wd by blast
  moreover have "list_all (\<lambda>p. \<not> py_in (fst p) (lower ''el viernes a las 9:30''))
      (take 5 WEEKDAYS_BACKEND)"
    using h9 unfolding list_all_iff by blast
  ultimately show ?thesis
    using h1 h4 h5 h7 h8 by blast
qed

section \<open>Properties of the delete resolver\<close>

lemma matches_loop_filter:
  "matches_loop i g s cs acc = acc @ filter (delete_match i g s) cs"
  by (induction cs arbitrary: acc) simp_all

lemma delete_match_iff:
  "delete_match i g s e =
     ((g = [] \<or> similar (entry_group e) g) \<and> (s = [] \<or> similar (entry_subgroup e) s)
      \<and> (i = [] \<or> similar (entry_idea e) i))"
  by (simp add: delete_match_def delete_field_ok_def)

lemma entries_matching_delete_filter:
  "entries_matching_delete ai d =
     filter (delete_match (normalize (or_empty (ai_idea ai))) (normalize (or_empty (ai_group ai)))
               (normalize (or_empty (ai_subgroup ai))))
       (query_processed d)"
  by (simp add: entries_matching_delete_def matches_loop_filter)

text \<open>
  C5. The resolver checks a field with \<open>_similar(entry_field, pattern)\<close>, whose length
  guard reads the stored field only. Asked to delete the idea \<open>a\<close>, it selects the
  processed entries whose idea is longer than three characters and contains an \<open>a\<close>:
  the second entry (idea from its summary \<open>Pasta\<close>) and the third (idea from its
  content \<open>tarta\<close>, as it has no summary), and neither the first (summary \<open>pan\<close>, of
  three characters) nor the pending fourth. Under the relation of section 4.1 no idea is
  similar to \<open>a\<close>, the shorter string having one character.
\<close>

theorem delete_resolver_short_idea:
  "map (\<lambda>e. (ident e, summary e, content e, tags e))
       (entries_matching_delete ai_delete_a pantry_db) =
     [(2, Some ''Pasta'', ''n2'', Some ''casa''), (3, None, ''tarta'', None)]
   \<and> \<not> similar_spec ''Pasta'' ''a'' \<and> \<not> similar_spec ''tarta'' ''a''
   \<and> \<not> similar_spec ''pan'' ''a''"
proof -
  have m: "map (\<lambda>e. (ident e, summary e, content e, tags e))
             (entries_matching_delete ai_delete_a pantry_db) =
           [(2, Some ''Pasta'', ''n2'', Some ''casa''), (3, None, ''tarta'', None)]"
    by code_simp
  have p: "\<not> similar_spec ''Pasta'' ''a''" by code_simp
  have t: "\<not> similar_spec ''tarta'' ''a''" by code_simp
  have n: "\<not> similar_spec ''pan'' ''a''" by code_simp
  from m p t n show ?thesis
    by (simp only: simp_thms)
qed

lemma normalize_Nil: "normalize [] = []"
  by code_simp

lemma fold_delete_entries:
  "entries (fold delete_entry ms d) = filter (\<lambda>x. ident x \<notin> ident ` set ms) (entries d)"
  by (induction ms arbitrary: d) (auto simp: delete_entry_def intro: filter_cong)

lemma fold_delete_commits: "commits (fold delete_entry ms d) = commits d"
  by (induction ms arbitrary: d) (simp_all add: delete_entry_def)

lemma ident_processed:
  assumes "distinct (map ident es)" and "x \<in> set es"
  shows "(ident x \<in> ident ` {e \<in> set es. status e = ''processed''})
           = (status x = ''processed'')"
proof -
  from assms(1) have "inj_on ident (set es)" by (simp add: distinct_map)
  with assms(2) show ?thesis by (auto simp: inj_on_def)
qed

text \<open>
  C10. A delete result whose group, subgroup and idea are all empty or absent matches
  every processed entry: \<open>delete_entries_matching\<close> returns all of them, removes them
  from the store (whose primary keys are distinct) and commits once, when there was
  anything to delete.
\<close>

theorem delete_all_wildcards:
  assumes "or_empty (ai_group ai) = []" and "or_empty (ai_subgroup ai) = []"
    and "or_empty (ai_idea ai) = []" and "distinct (map ident (entries d))"
  shows "\<exists>d'. delete_entries_matching ai d = (query_processed d, d')
           \<and> entries_matching_delete ai d = query_processed d
           \<and> entries d' = filter (\<lambda>e. status e \<noteq> ''processed'') (entries d)
           \<and> query_processed d' = []
           \<and> commits d' = (if query_processed d = [] then commits d else Suc (commits d))"
proof -
  define d1 where "d1 = fold delete_entry (query_processed d) d"
  define d' where "d' = (if query_processed d \<noteq> [] then commit d1 else d1)"
  have m: "entries_matching_delete ai d = query_processed d"
    by (simp add: entries_matching_delete_filter delete_match_iff assms(1,2,3) normalize_Nil)
  have r: "delete_entries_matching ai d = (query_processed d, d')"
    by (simp add: delete_entries_matching_def m Let_def d1_def d'_def)
  have e1: "entries d1 = filter (\<lambda>e. status e \<noteq> ''processed'') (entries d)"
    unfolding d1_def fold_delete_entries query_processed_def
    by (rule filter_cong [OF refl]) (simp add: ident_processed [OF assms(4)])
  have en: "entries d' = entries d1"
    by (simp add: d'_def commit_def)
  have q: "query_processed d' = []"
    by (simp add: query_processed_def en e1 filter_empty_conv)
  have c: "commits d' = (if query_processed d = [] then commits d else Suc (commits d))"
    by (simp add: d'_def d1_def commit_def fold_delete_commits)
  from r m en e1 q c show ?thesis
    by metis
qed

theorem delete_all_wildcards_witness:
  "or_empty (ai_group ai_delete_all) = [] \<and> or_empty (ai_subgroup ai_delete_all) = []
   \<and> or_empty (ai_idea ai_delete_all) = [] \<and> distinct (map ident (entries shopping_db))
   \<and> fst (delete_entries_matching ai_delete_all shopping_db) =
       [mk_entry 1 ''comprar leche'' ''casa,compras'' ''processed'',
        mk_entry 2 ''Comprar  LECHE desnatada'' ''trabajo'' ''processed'',
        mk_entry 3 ''llamar a Ana'' ''casa'' ''processed'']
   \<and> entries (snd (delete_entries_matching ai_delete_all shopping_db)) =
       [mk_entry 4 ''comprar leche de soja'' ''casa'' ''pending'']
   \<and> commits (snd (delete_entries_matching ai_delete_all shopping_db)) = 1"
proof -
  have h1: "or_empty (ai_group ai_delete_all) = []" by code_simp
  have h2: "or_empty (ai_subgroup ai_delete_all) = []" by code_simp
  have h3: "or_empty (ai_idea ai_delete_all) = []" by code_simp
  have h4: "distinct (map ident (entries shopping_db))" by code_simp
  have q: "query_processed shopping_db =
       [mk_entry 1 ''comprar leche'' ''casa,compras'' ''processed'',
        mk_entry 2 ''Comprar  LECHE desnatada'' ''trabajo'' ''processed'',
        mk_entry 3 ''llamar a Ana'' ''casa'' ''processed'']"
    by code_simp
  have r: "filter (\<lambda>e. status e \<noteq> ''processed'') (entries shopping_db) =
       [mk_entry 4 ''comprar leche de soja'' ''casa'' ''pending'']"
    by code_simp
  have c: "commits shopping_db = 0" by code_simp
  from delete_all_wildcards [OF h1 h2 h3 h4]
  obtain d' where d: "delete_entries_matching ai_delete_all shopping_db = (query_processed shopping_db, d')"
      "entries d' = filter (\<lambda>e. status e \<noteq> ''processed'') (entries shopping_db)"
      "commits d' = (if query_processed shopping_db = [] then commits shopping_db
                     else Suc (commits shopping_db))"
    by blast
  from d(3) q c have c': "commits d' = 1" by simp
  from d(1) q have f: "fst (delete_entries_matching ai_delete_all shopping_db) =
       [mk_entry 1 ''comprar leche'' ''casa,compras'' ''processed'',
        mk_entry 2 ''Comprar  LECHE desnatada'' ''trabajo'' ''processed'',
        mk_entry 3 ''llamar a Ana'' ''casa'' ''processed'']"
    by simp
  from d(1) have s: "snd (delete_entries_matching ai_delete_all shopping_db) = d'"
    by simp
  from h1 h2 h3 h4 f s d(2) r c' show ?thesis
    by (simp only: simp_thms)
qed

section \<open>Properties of the reminder scheduler\<close>

lemma fire_reminder_reminders:
  "reminders (fire_reminder ev r d) =
     map (\<lambda>x. if rid x = rid r then x\<lparr>sent := True\<rparr> else x) (reminders d)"
  by (simp add: fire_reminder_def Let_def mark_sent_def send_email_notification_def
      delete_entry_def split: option.split)

lemma fire_reminder_mail:
  "mail_attempts (fire_reminder ev r d) =
     mail_attempts d @ [(message r, fire_at r, smtp_ok ev (message r) (fire_at r))]"
  by (simp add: fire_reminder_def Let_def mark_sent_def send_email_notification_def
      delete_entry_def split: option.split)

lemma fire_reminder_commits: "commits (fire_reminder ev r d) = commits d"
  by (simp add: fire_reminder_def Let_def mark_sent_def send_email_notification_def
      delete_entry_def split: option.split)

lemma filter_no_ident:
  assumes "find (\<lambda>e. ident e = i) es = None"
  shows "filter (\<lambda>e. ident e \<noteq> i) es = es"
  using assms by (induction es) (auto split: if_splits)

lemma fire_reminder_entries:
  "entries (fire_reminder ev r d) =
     filter (\<lambda>e. \<not> (entry_id r = Some (ident e) \<and> ident e \<noteq> 0)) (entries d)"
proof (cases "entry_id r")
  case None
  then show ?thesis
    by (simp add: fire_reminder_def Let_def mark_sent_def send_email_notification_def)
next
  case (Some i)
  show ?thesis
  proof (cases "i = 0")
    case True
    with Some show ?thesis
      by (auto simp: fire_reminder_def Let_def mark_sent_def send_email_notification_def
          intro!: filter_True [symmetric])
  next
    case False
    have es: "entries (mark_sent r (send_email_notification ev (message r) (fire_at r) d))
                = entries d"
      by (simp add: mark_sent_def send_email_notification_def)
    have eq: "(\<lambda>e. \<not> (entry_id r = Some (ident e) \<and> ident e \<noteq> 0)) = (\<lambda>e. ident e \<noteq> i)"
      using Some False by auto
    show ?thesis
    proof (cases "find (\<lambda>e. ident e = i) (entries d)")
      case None
      with Some False es show ?thesis
        unfolding eq
        by (simp add: fire_reminder_def Let_def entry_by_id_def filter_no_ident)
    next
      case (Some e)
      then have "ident e = i" by (auto dest: find_Some_iff [THEN iffD1])
      with Some \<open>entry_id r = Some i\<close> False es show ?thesis
        unfolding eq
        by (simp add: fire_reminder_def Let_def entry_by_id_def delete_entry_def)
    qed
  qed
qed

lemma fold_fire_reminders:
  "reminders (fold (fire_reminder ev) rs d) =
     map (\<lambda>x. if rid x \<in> rid ` set rs then x\<lparr>sent := True\<rparr> else x) (reminders d)"
proof (induction rs arbitrary: d)
  case Nil
  then show ?case by simp
next
  case (Cons r rs)
  show ?case
    by (simp add: Cons.IH fire_reminder_reminders)
qed

lemma fold_fire_mail:
  "mail_attempts (fold (fire_reminder ev) rs d) =
     mail_attempts d @ map (\<lambda>r. (message r, fire_at r, smtp_ok ev (message r) (fire_at r))) rs"
  by (induction rs arbitrary: d) (simp_all add: fire_reminder_mail)

lemma fold_fire_commits: "commits (fold (fire_reminder ev) rs d) = commits d"
  by (induction rs arbitrary: d) (simp_all add: fire_reminder_commits)

lemma fold_fire_entries:
  "entries (fold (fire_reminder ev) rs d) =
     filter (\<lambda>e. \<forall>r \<in> set rs. \<not> (entry_id r = Some (ident e) \<and> ident e \<noteq> 0)) (entries d)"
proof (induction rs arbitrary: d)
  case Nil
  then show ?case by simp
next
  case (Cons r rs)
  show ?case
    by (simp add: Cons.IH fire_reminder_entries)
qed


text \<open>
  C4. One poll of the scheduler, on a store whose entries have non-zero primary keys:
  it makes one delivery attempt for each reminder that is unsent and due, in store
  order; it sets \<open>sent\<close> on each of them whatever the attempt returned; it deletes
  every entry a due reminder links to; it commits once when anything was due; and no
  reminder that was due is due again at any later poll, so none is fired twice.
\<close>

theorem poll_fires_due_reminders_once:
  assumes "\<forall>e \<in> set (entries d). ident e \<noteq> 0"
  shows "mail_attempts (check_reminders ev d) =
           mail_attempts d @
           map (\<lambda>r. (message r, fire_at r, smtp_ok ev (message r) (fire_at r)))
             (due_reminders (clock_now ev) d)
       \<and> reminders (check_reminders ev d) =
           map (\<lambda>x. if rid x \<in> rid ` set (due_reminders (clock_now ev) d)
                     then x\<lparr>sent := True\<rparr> else x) (reminders d)
       \<and> entries (check_reminders ev d) =
           filter (\<lambda>e. \<forall>r \<in> set (due_reminders (clock_now ev) d). entry_id r \<noteq> Some (ident e))
             (entries d)
       \<and> commits (check_reminders ev d) =
           (if due_reminders (clock_now ev) d = [] then commits d else Suc (commits d))
       \<and> (\<forall>now2. \<forall>r2 \<in> set (due_reminders now2 (check_reminders ev d)).
             rid r2 \<notin> rid ` set (due_reminders (clock_now ev) d))"
proof -
  let ?due = "due_reminders (clock_now ev) d"
  let ?d1 = "fold (fire_reminder ev) ?due d"
  have cr: "check_reminders ev d = (if ?due \<noteq> [] then commit ?d1 else ?d1)"
    by (simp add: check_reminders_def Let_def)
  have m: "mail_attempts (check_reminders ev d) =
      mail_attempts d @ map (\<lambda>r. (message r, fire_at r, smtp_ok ev (message r) (fire_at r))) ?due"
    by (simp add: cr commit_def fold_fire_mail)
  have r: "reminders (check_reminders ev d) =
      map (\<lambda>x. if rid x \<in> rid ` set ?due then x\<lparr>sent := True\<rparr> else x) (reminders d)"
    by (simp add: cr commit_def fold_fire_reminders)
  have e0: "entries (check_reminders ev d) =
      filter (\<lambda>e. \<forall>r \<in> set ?due. \<not> (entry_id r = Some (ident e) \<and> ident e \<noteq> 0)) (entries d)"
    by (simp add: cr commit_def fold_fire_entries)
  have e: "entries (check_reminders ev d) =
      filter (\<lambda>e. \<forall>r \<in> set ?due. entry_id r \<noteq> Some (ident e)) (entries d)"
    unfolding e0 by (rule filter_cong [OF refl]) (use assms in auto)
  have c: "commits (check_reminders ev d) = (if ?due = [] then commits d else Suc (commits d))"
    by (simp add: cr commit_def fold_fire_commits)
  have n: "\<forall>now2. \<forall>r2 \<in> set (due_reminders now2 (check_reminders ev d)). rid r2 \<notin> rid ` set ?due"
  proof (intro allI ballI)
    fix now2 r2
    assume "r2 \<in> set (due_reminders now2 (check_reminders ev d))"
    then have a: "r2 \<in> set (reminders (check_reminders ev d))" and b: "sent r2 = False"
      by (simp_all add: due_reminders_def)
    from a obtain x where x: "x \<in> set (reminders d)"
        "r2 = (if rid x \<in> rid ` set ?due then x\<lparr>sent := True\<rparr> else x)"
      unfolding r by auto
    show "rid r2 \<notin> rid ` set ?due"
    proof (cases "rid x \<in> rid ` set ?due")
      case True
      with x(2) b show ?thesis by simp
    next
      case False
      with x(2) show ?thesis by simp
    qed
  qed
  from m r e c n show ?thesis
    by (intro conjI)
qed

theorem poll_fires_due_reminders_once_witness:
  "list_all (\<lambda>e. ident e \<noteq> 0) (entries remind_db)
   \<and> mail_attempts (check_reminders env_fail remind_db) =
       [(''leche'', \<lparr>ordinal = 738885, hour = 9, minute = 0, second = 0, microsecond = 0\<rparr>, False)]
   \<and> map sent (reminders (check_reminders env_fail remind_db)) = [True, False]
   \<and> map ident (entries (check_reminders env_fail remind_db)) = [2, 3, 4]
   \<and> commits (check_reminders env_fail remind_db) = 1
   \<and> due_reminders monday_8h (check_reminders env_fail remind_db) = []"
proof -
  have h: "\<forall>e \<in> set (entries remind_db). ident e \<noteq> 0" by code_simp
  note T = poll_fires_due_reminders_once [OF h, of env_fail]
  note c1 = T [THEN conjunct1]
  note c2 = T [THEN conjunct2, THEN conjunct1]
  note c3 = T [THEN conjunct2, THEN conjunct2, THEN conjunct1]
  note c4 = T [THEN conjunct2, THEN conjunct2, THEN conjunct2, THEN conjunct1]
  have a0: "list_all (\<lambda>e. ident e \<noteq> 0) (entries remind_db)" by code_simp
  have a1: "mail_attempts (check_reminders env_fail remind_db) =
       [(''leche'', \<lparr>ordinal = 738885, hour = 9, minute = 0, second = 0, microsecond = 0\<rparr>, False)]"
    unfolding c1 by code_simp
  have a2: "map sent (reminders (check_reminders env_fail remind_db)) = [True, False]"
    unfolding c2 by code_simp
  have a3: "map ident (entries (check_reminders env_fail remind_db)) = [2, 3, 4]"
    unfolding c3 by code_simp
  have a4: "commits (check_reminders env_fail remind_db) = 1"
    unfolding c4 by code_simp
  have a5: "due_reminders monday_8h (check_reminders env_fail remind_db) = []"
    unfolding due_reminders_def c2 by code_simp
  from a0 a1 a2 a3 a4 a5 show ?thesis
    by (intro conjI)
qed

section \<open>Properties of the auto-summarizer\<close>

lemma ideas_loop_filter:
  "ideas_loop g sg es acc =
     acc @ map (\<lambda>e. or_empty (summary e))
             (filter (\<lambda>e. (case tag_parts (tags e) of [] \<Rightarrow> [] | x # _ \<Rightarrow> x) = g
                        \<and> (case tag_parts (tags e) of _ # y # _ \<Rightarrow> Some y | _ \<Rightarrow> None) = sg
                        \<and> truthy (summary e)) es)"
  by (induction es arbitrary: acc) (simp_all add: Let_def)

lemma get_group_ideas_filter:
  "get_group_ideas g sg d =
     map (\<lambda>e. or_empty (summary e))
       (filter (\<lambda>e. status e = ''processed''
                  \<and> (case tag_parts (tags e) of [] \<Rightarrow> [] | x # _ \<Rightarrow> x) = g
                  \<and> (case tag_parts (tags e) of _ # y # _ \<Rightarrow> Some y | _ \<Rightarrow> None) = sg
                  \<and> truthy (summary e)) (entries d))"
  by (simp add: get_group_ideas_def ideas_loop_filter query_processed_def)

lemma find_None_iff_set: "(find P xs = None) = (\<not> (\<exists>x \<in> set xs. P x))"
  by (induction xs) auto

lemma group_summaries_request:
  "group_summaries (snd (request_summary ev g sg ideas d)) = group_summaries d"
  by (simp add: request_summary_def)

lemma upsert_summary_rows:
  "group_summaries (upsert_summary ev g sg text d) =
     (if \<exists>row \<in> set (group_summaries d). group_name row = g \<and> subgroup_name row = sg
      then update_first (\<lambda>row. group_name row = g \<and> subgroup_name row = sg)
             (\<lambda>row. row\<lparr>gs_summary := text, updated_at := Some (clock_utcnow ev)\<rparr>)
             (group_summaries d)
      else group_summaries d @
             [\<lparr>group_name = g, subgroup_name = sg, gs_summary = text, updated_at = None\<rparr>])"
proof (cases "find (\<lambda>row. group_name row = g \<and> subgroup_name row = sg) (group_summaries d)")
  case None
  then have c: "(\<exists>row \<in> set (group_summaries d). group_name row = g \<and> subgroup_name row = sg)
                 = False"
    by (simp add: find_None_iff_set)
  show ?thesis
    unfolding c by (simp add: upsert_summary_def Let_def commit_def None)
next
  case (Some a)
  then have c: "(\<exists>row \<in> set (group_summaries d). group_name row = g \<and> subgroup_name row = sg)
                 = True"
    using find_None_iff_set [of "\<lambda>row. group_name row = g \<and> subgroup_name row = sg" "group_summaries d"]
    by simp
  show ?thesis
    unfolding c by (simp add: upsert_summary_def Let_def commit_def Some)
qed

lemma upsert_summary_requests:
  "summary_requests (upsert_summary ev g sg text d) = summary_requests d"
  by (simp add: upsert_summary_def Let_def commit_def split: option.split)

text \<open>
  C8, amended. The auto-summarizer counts the non-empty summaries of the processed
  entries whose first and second tag segments are exactly the group and the subgroup.
  It sends one summarization request iff that count is greater than 10, and it upserts
  the row of the pair (rewriting its first row, or adding one) iff moreover the
  provider answered with a non-empty text; otherwise the summaries are left as they are.
\<close>

theorem auto_summarize_threshold:
  "summary_requests (maybe_auto_summarize ev g sg d) =
     summary_requests d @
       (if length (get_group_ideas g sg d) > 10 then [(g, sg, get_group_ideas g sg d)] else [])
   \<and> group_summaries (maybe_auto_summarize ev g sg d) =
       (if length (get_group_ideas g sg d) > 10
           \<and> or_empty (summarize_response ev g sg (get_group_ideas g sg d)) \<noteq> []
        then (if \<exists>row \<in> set (group_summaries d). group_name row = g \<and> subgroup_name row = sg
              then update_first (\<lambda>row. group_name row = g \<and> subgroup_name row = sg)
                     (\<lambda>row. row\<lparr>gs_summary :=
                                   or_empty (summarize_response ev g sg (get_group_ideas g sg d)),
                                 updated_at := Some (clock_utcnow ev)\<rparr>)
                     (group_summaries d)
              else group_summaries d @
                     [\<lparr>group_name = g, subgroup_name = sg,
                       gs_summary = or_empty (summarize_response ev g sg (get_group_ideas g sg d)),
                       updated_at = None\<rparr>])
        else group_summaries d)
   \<and> get_group_ideas g sg d =
       map (\<lambda>e. or_empty (summary e))
         (filter (\<lambda>e. status e = ''processed''
                    \<and> (case tag_parts (tags e) of [] \<Rightarrow> [] | x # _ \<Rightarrow> x) = g
                    \<and> (case tag_parts (tags e) of _ # y # _ \<Rightarrow> Some y | _ \<Rightarrow> None) = sg
                    \<and> truthy (summary e)) (entries d))"
proof -
  let ?ideas = "get_group_ideas g sg d"
  let ?text = "or_empty (summarize_response ev g sg ?ideas)"
  let ?d1 = "d\<lparr>summary_requests := summary_requests d @ [(g, sg, ?ideas)]\<rparr>"
  have m: "maybe_auto_summarize ev g sg d =
      (if length ?ideas \<le> 10 then d
       else if ?text = [] then ?d1 else upsert_summary ev g sg ?text ?d1)"
    by (simp add: maybe_auto_summarize_def Let_def request_summary_def)
  have a: "summary_requests (maybe_auto_summarize ev g sg d) =
     summary_requests d @ (if length ?ideas > 10 then [(g, sg, ?ideas)] else [])"
    unfolding m by (simp add: upsert_summary_requests)
  have b: "group_summaries (maybe_auto_summarize ev g sg d) =
       (if length ?ideas > 10 \<and> ?text \<noteq> []
        then (if \<exists>row \<in> set (group_summaries d). group_name row = g \<and> subgroup_name row = sg
              then update_first (\<lambda>row. group_name row = g \<and> subgroup_name row = sg)
                     (\<lambda>row. row\<lparr>gs_summary := ?text, updated_at := Some (clock_utcnow ev)\<rparr>)
                     (group_summaries d)
              else group_summaries d @
                     [\<lparr>group_name = g, subgroup_name = sg, gs_summary = ?text,
                       updated_at = None\<rparr>])
        else group_summaries d)"
    unfolding m by (auto simp: upsert_summary_rows)
  from a b get_group_ideas_filter [of g sg d] show ?thesis
    by (intro conjI)
qed

text \<open>
  C8, as stated, fails: with eleven ideas in the group and a summarization service that
  does not answer, the request is made and no row is written.
\<close>

theorem summary_not_upserted_counterexample:
  "length (get_group_ideas ''ideas'' None (ideas_db 11)) = 11
   \<and> summary_requests (maybe_auto_summarize env_fail ''ideas'' None (ideas_db 11)) =
       [(''ideas'', None, get_group_ideas ''ideas'' None (ideas_db 11))]
   \<and> group_summaries (maybe_auto_summarize env_fail ''ideas'' None (ideas_db 11)) = []"
  by code_simp

theorem auto_summarize_threshold_witness:
  "length (get_group_ideas ''ideas'' None (ideas_db 11)) = 11
   \<and> length (summary_requests (maybe_auto_summarize env_ok ''ideas'' None (ideas_db 11))) = 1
   \<and> group_summaries (maybe_auto_summarize env_ok ''ideas'' None (ideas_db 11)) =
       [\<lparr>group_name = ''ideas'', subgroup_name = None, gs_summary = ''resumen'',
         updated_at = None\<rparr>]
   \<and> length (get_group_ideas ''ideas'' None (ideas_db 10)) = 10
   \<and> summary_requests (maybe_auto_summarize env_ok ''ideas'' None (ideas_db 10)) = []
   \<and> group_summaries (maybe_auto_summarize env_ok ''ideas'' None (ideas_db 10)) = []"
proof -
  note T11 = auto_summarize_threshold [of env_ok "''ideas''" None "ideas_db 11"]
  note T10 = auto_summarize_threshold [of env_ok "''ideas''" None "ideas_db 10"]
  have a1: "length (get_group_ideas ''ideas'' None (ideas_db 11)) = 11" by code_simp
  have a2: "length (summary_requests (maybe_auto_summarize env_ok ''ideas'' None (ideas_db 11))) = 1"
    unfolding T11 [THEN conjunct1] by code_simp
  have a3: "group_summaries (maybe_auto_summarize env_ok ''ideas'' None (ideas_db 11)) =
       [\<lparr>group_name = ''ideas'', subgroup_name = None, gs_summary = ''resumen'',
         updated_at = None\<rparr>]"
    unfolding T11 [THEN conjunct2, THEN conjunct1] by code_simp
  have b1: "length (get_group_ideas ''ideas'' None (ideas_db 10)) = 10" by code_simp
  have b2: "summary_requests (maybe_auto_summarize env_ok ''ideas'' None (ideas_db 10)) = []"
    unfolding T10 [THEN conjunct1] by code_simp
  have b3: "group_summaries (maybe_auto_summarize env_ok ''ideas'' None (ideas_db 10)) = []"
    unfolding T10 [THEN conjunct2, THEN conjunct1] by code_simp
  from a1 a2 a3 b1 b2 b3 show ?thesis
    by (intro conjI)
qed

section \<open>Properties of note submission\<close>

lemma remind_branch:
  assumes "makes_sense ai \<noteq> Some False" and "ai_action ai = Some ''remind''"
    and "case ai_remind_at ai of None \<Rightarrow> True | Some t \<Rightarrow> t = [] \<or> fromisoformat ev t = None"
  shows "process_single_ai ev ai note d =
           Inr ((NoteOut ''remind'')
                  \<lparr>out_group := Some ''recordatorios'',
                   out_idea := Some (case ai_idea ai of None \<Rightarrow> note_content note
                                     | Some i \<Rightarrow> if i = [] then note_content note else i),
                   out_remind_at := Some (isoformat ev (add_minutes (clock_now ev) 5))\<rparr>,
                insert_reminder (case ai_idea ai of None \<Rightarrow> note_content note
                                 | Some i \<Rightarrow> if i = [] then note_content note else i)
                  (add_minutes (clock_now ev) 5) None d)"
proof -
  have f: "(case or_none (ai_remind_at ai) of
              None \<Rightarrow> add_minutes (clock_now ev) 5
            | Some t \<Rightarrow> (case fromisoformat ev t of
                           Some parsed \<Rightarrow> parsed
                         | None \<Rightarrow> add_minutes (clock_now ev) 5))
           = add_minutes (clock_now ev) 5"
    using assms(3)
    by (cases "ai_remind_at ai") (auto simp: or_none_def truthy_def or_empty_def)
  have m: "(if truthy (ai_idea ai) then or_empty (ai_idea ai) else note_content note)
           = (case ai_idea ai of None \<Rightarrow> note_content note
              | Some i \<Rightarrow> if i = [] then note_content note else i)"
    by (cases "ai_idea ai") (simp_all add: truthy_def or_empty_def)
  have a: "(case ai_action ai of None \<Rightarrow> ''add'' | Some a \<Rightarrow> a) = ''remind''"
    by (simp add: assms(2))
  have nd: "(''remind'' = ''delete'') = False"
    by simp
  show ?thesis
    unfolding process_single_ai_def Let_def a f m nd
    using assms(1) by (simp only: if_False if_True simp_thms)
qed

lemma minutes_split: "(t::nat) div 1440 * 1440 + (t div 60 mod 24) * 60 + t mod 60 = t"
proof -
  have a: "t div 1440 = t div 60 div 24"
    using div_mult2_eq [of t 60 24] by simp
  have b: "t div 60 = 24 * (t div 60 div 24) + t div 60 mod 24"
    by simp
  have c: "t = 60 * (t div 60) + t mod 60"
    by simp
  define q where "q = t div 60 div 24"
  define r where "r = t div 60 mod 24"
  define s where "s = t mod 60"
  define u where "u = t div 60"
  from b have b': "u = 24 * q + r" by (simp only: q_def r_def u_def)
  from c have c': "t = 60 * u + s" by (simp only: u_def s_def)
  have "q * 1440 + r * 60 + s = t"
    using b' c' by linarith
  then show ?thesis
    by (simp only: a q_def r_def s_def)
qed

lemma add_minutes_total:
  "ordinal (add_minutes d n) * 1440 + int (hour (add_minutes d n) * 60 + minute (add_minutes d n))
     = ordinal d * 1440 + int (hour d * 60 + minute d + n)
   \<and> hour (add_minutes d n) < 24 \<and> minute (add_minutes d n) < 60
   \<and> second (add_minutes d n) = second d \<and> microsecond (add_minutes d n) = microsecond d"
proof -
  define t where "t = hour d * 60 + minute d + n"
  have o: "ordinal (add_minutes d n) = ordinal d + int (t div 1440)"
    by (simp add: add_minutes_def Let_def t_def)
  have h: "hour (add_minutes d n) = t div 60 mod 24"
    by (simp add: add_minutes_def Let_def t_def)
  have m: "minute (add_minutes d n) = t mod 60"
    by (simp add: add_minutes_def Let_def t_def)
  have s: "second (add_minutes d n) = second d \<and> microsecond (add_minutes d n) = microsecond d"
    by (simp add: add_minutes_def Let_def)
  have "int (t div 1440 * 1440 + (t div 60 mod 24) * 60 + t mod 60) = int t"
    by (simp only: minutes_split)
  then have e: "int (t div 1440) * 1440 + int ((t div 60 mod 24) * 60 + t mod 60) = int t"
    by (simp only: of_nat_add of_nat_mult of_nat_numeral add.assoc)
  have "(ordinal d + int (t div 1440)) * 1440 + int ((t div 60 mod 24) * 60 + t mod 60)
          = ordinal d * 1440 + int t"
    using e by (simp only: distrib_right add.assoc)
  then have x: "ordinal (add_minutes d n) * 1440
                  + int (hour (add_minutes d n) * 60 + minute (add_minutes d n))
                = ordinal d * 1440 + int (hour d * 60 + minute d + n)"
    by (simp only: o h m t_def)
  have hb: "hour (add_minutes d n) < 24" by (simp add: h)
  have mb: "minute (add_minutes d n) < 60" by (simp add: m)
  from x hb mb s show ?thesis by blast
qed


text \<open>
  C7. A result with the action \<open>remind\<close> whose \<open>remind_at\<close> is absent, empty or does not
  parse never makes \<open>_process_single_ai\<close> fail. Unless the result is ignored for making
  no sense, one reminder is added: unsent, linked to no entry, its message the idea of
  the result, or the content of the note when the idea is absent or empty, and its
  \<open>fire_at\<close> the clock reading plus five minutes (the same second, and the minute of the
  day and the day carried over). The outcome reports the same message and time.
\<close>

theorem remind_defaults_to_five_minutes:
  assumes "ai_action ai = Some ''remind''"
    and "case ai_remind_at ai of None \<Rightarrow> True | Some t \<Rightarrow> t = [] \<or> fromisoformat ev t = None"
  shows "\<exists>out d'. process_single_ai ev ai note d = Inr (out, d')
           \<and> (if makes_sense ai = Some False then out = NoteOut ''ignored'' \<and> d' = d
              else \<exists>fire msg.
                     msg = (case ai_idea ai of None \<Rightarrow> note_content note
                            | Some i \<Rightarrow> if i = [] then note_content note else i)
                   \<and> fire = add_minutes (clock_now ev) 5
                   \<and> ordinal fire * 1440 + int (hour fire * 60 + minute fire)
                       = ordinal (clock_now ev) * 1440
                         + int (hour (clock_now ev) * 60 + minute (clock_now ev) + 5)
                   \<and> hour fire < 24 \<and> minute fire < 60
                   \<and> second fire = second (clock_now ev)
                   \<and> microsecond fire = microsecond (clock_now ev)
                   \<and> reminders d' = reminders d @
                         [\<lparr>rid = next_reminder_id d, message = msg, fire_at = fire,
                           sent = False, entry_id = None\<rparr>]
                   \<and> entries d' = entries d \<and> commits d' = Suc (commits d)
                   \<and> out_action out = ''remind'' \<and> out_idea out = Some msg
                   \<and> out_remind_at out = Some (isoformat ev fire) \<and> out_entry out = None)"
proof (cases "makes_sense ai = Some False")
  case True
  then have "process_single_ai ev ai note d = Inr (NoteOut ''ignored'', d)"
    by (simp add: process_single_ai_def)
  with True show ?thesis
    by simp
next
  case False
  define msg where "msg = (case ai_idea ai of None \<Rightarrow> note_content note
                           | Some i \<Rightarrow> if i = [] then note_content note else i)"
  define fire where "fire = add_minutes (clock_now ev) 5"
  define out where "out = (NoteOut ''remind'')
                            \<lparr>out_group := Some ''recordatorios'', out_idea := Some msg,
                             out_remind_at := Some (isoformat ev fire)\<rparr>"
  define d' where "d' = insert_reminder msg fire None d"
  have r: "process_single_ai ev ai note d = Inr (out, d')"
    unfolding out_def d'_def msg_def fire_def
    by (rule remind_branch [OF False assms])
  have t: "ordinal fire * 1440 + int (hour fire * 60 + minute fire)
             = ordinal (clock_now ev) * 1440
               + int (hour (clock_now ev) * 60 + minute (clock_now ev) + 5)
           \<and> hour fire < 24 \<and> minute fire < 60
           \<and> second fire = second (clock_now ev)
           \<and> microsecond fire = microsecond (clock_now ev)"
    unfolding fire_def by (rule add_minutes_total)
  have s: "reminders d' = reminders d @
             [\<lparr>rid = next_reminder_id d, message = msg, fire_at = fire,
               sent = False, entry_id = None\<rparr>]
           \<and> entries d' = entries d \<and> commits d' = Suc (commits d)"
    by (simp add: d'_def insert_reminder_def commit_def)
  have o: "out_action out = ''remind'' \<and> out_idea out = Some msg
           \<and> out_remind_at out = Some (isoformat ev fire) \<and> out_entry out = None"
    by (simp add: out_def NoteOut_def)
  have "\<exists>fire' msg'.
          msg' = (case ai_idea ai of None \<Rightarrow> note_content note
                  | Some i \<Rightarrow> if i = [] then note_content note else i)
        \<and> fire' = add_minutes (clock_now ev) 5
        \<and> ordinal fire' * 1440 + int (hour fire' * 60 + minute fire')
            = ordinal (clock_now ev) * 1440
              + int (hour (clock_now ev) * 60 + minute (clock_now ev) + 5)
        \<and> hour fire' < 24 \<and> minute fire' < 60
        \<and> second fire' = second (clock_now ev)
        \<and> microsecond fire' = microsecond (clock_now ev)
        \<and> reminders d' = reminders d @
              [\<lparr>rid = next_reminder_id d, message = msg', fire_at = fire',
                sent = False, entry_id = None\<rparr>]
        \<and> entries d' = entries d \<and> commits d' = Suc (commits d)
        \<and> out_action out = ''remind'' \<and> out_idea out = Some msg'
        \<and> out_remind_at out = Some (isoformat ev fire') \<and> out_entry out = None"
    using t s o msg_def fire_def by blast
  with r False show ?thesis
    by (simp only: if_False) blast
qed

theorem remind_defaults_to_five_minutes_witness:
  "ai_action ai_remind_bad = Some ''remind'' \<and> ai_remind_at ai_remind_bad = Some ''pronto''
   \<and> fromisoformat env_fail ''pronto'' = None
   \<and> (\<exists>out d'. process_single_ai env_fail ai_remind_bad note_pill empty_db = Inr (out, d')
         \<and> reminders d' =
             [\<lparr>rid = 1, message = ''tomar pastilla'',
               fire_at = \<lparr>ordinal = 738886, hour = 8, minute = 5, second = 0, microsecond = 0\<rparr>,
               sent = False, entry_id = None\<rparr>]
         \<and> out_action out = ''remind'' \<and> out_idea out = Some ''tomar pastilla'')
   \<and> ai_action ai_remind_bare = Some ''remind'' \<and> ai_remind_at ai_remind_bare = None
   \<and> ai_idea ai_remind_bare = None
   \<and> (\<exists>out d'. process_single_ai env_fail ai_remind_bare note_pill empty_db = Inr (out, d')
         \<and> reminders d' =
             [\<lparr>rid = 1, message = ''pastilla'',
               fire_at = \<lparr>ordinal = 738886, hour = 8, minute = 5, second = 0, microsecond = 0\<rparr>,
               sent = False, entry_id = None\<rparr>]
         \<and> out_action out = ''remind'' \<and> out_idea out = Some ''pastilla'')"
proof -
  have a1: "ai_action ai_remind_bad = Some ''remind''" by code_simp
  have b1: "ai_remind_at ai_remind_bad = Some ''pronto''" by code_simp
  have c1: "fromisoformat env_fail ''pronto'' = None" by (simp add: env_fail_def)
  have i1: "ai_idea ai_remind_bad = Some ''tomar pastilla''" by code_simp
  have m1: "makes_sense ai_remind_bad \<noteq> Some False" by code_simp
  have a2: "ai_action ai_remind_bare = Some ''remind''" by code_simp
  have b2: "ai_remind_at ai_remind_bare = None" by code_simp
  have i2: "ai_idea ai_remind_bare = None" by code_simp
  have m2: "makes_sense ai_remind_bare \<noteq> Some False" by code_simp
  have f: "add_minutes (clock_now env_fail) 5 =
             \<lparr>ordinal = 738886, hour = 8, minute = 5, second = 0, microsecond = 0\<rparr>"
    by code_simp
  have n: "note_content note_pill = ''pastilla''" by code_simp
  have e: "reminders empty_db = [] \<and> next_reminder_id empty_db = 1" by code_simp
  have h1: "case ai_remind_at ai_remind_bad of None \<Rightarrow> True
            | Some t \<Rightarrow> t = [] \<or> fromisoformat env_fail t = None"
    by (simp add: b1 c1)
  have h2: "case ai_remind_at ai_remind_bare of None \<Rightarrow> True
            | Some t \<Rightarrow> t = [] \<or> fromisoformat env_fail t = None"
    by (simp add: b2)
  from remind_defaults_to_five_minutes [OF a1 h1, of note_pill empty_db] m1
  have r1: "\<exists>out d'. process_single_ai env_fail ai_remind_bad note_pill empty_db = Inr (out, d')
         \<and> reminders d' =
             [\<lparr>rid = 1, message = ''tomar pastilla'',
               fire_at = \<lparr>ordinal = 738886, hour = 8, minute = 5, second = 0, microsecond = 0\<rparr>,
               sent = False, entry_id = None\<rparr>]
         \<and> out_action out = ''remind'' \<and> out_idea out = Some ''tomar pastilla''"
    by (simp only: if_False i1 f e option.case list.simps if_False append_Nil) blast
  from remind_defaults_to_five_minutes [OF a2 h2, of note_pill empty_db] m2
  have r2: "\<exists>out d'. process_single_ai env_fail ai_remind_bare note_pill empty_db = Inr (out, d')
         \<and> reminders d' =
             [\<lparr>rid = 1, message = ''pastilla'',
               fire_at = \<lparr>ordinal = 738886, hour = 8, minute = 5, second = 0, microsecond = 0\<rparr>,
               sent = False, entry_id = None\<rparr>]
         \<and> out_action out = ''remind'' \<and> out_idea out = Some ''pastilla''"
    by (simp only: if_False i2 f e n option.case append_Nil) blast
  from a1 b1 c1 r1 a2 b2 i2 r2 show ?thesis
    by (simp only: simp_thms)
qed

lemma add_note_fallback_duplicate:
  assumes "\<exists>x \<in> set (entries d). content x = note_content note"
  shows "add_note ev None note d = Inl IntegrityError"
  using assms by (simp add: add_note_def insert_entry_def new_entry_def Let_def)

lemma add_note_fallback_fresh:
  assumes "\<not> (\<exists>x \<in> set (entries d). content x = note_content note)"
  shows "\<exists>e1 d1. add_note ev None note d =
                    Inr ([(NoteOut ''add'')\<lparr>out_entry := Some e1, out_ai_skipped := True\<rparr>], d1)
           \<and> entries d1 = entries d @ [e1] \<and> content e1 = note_content note
           \<and> summary e1 = None \<and> tags e1 = None"
  using assms by (simp add: add_note_def insert_entry_def new_entry_def Let_def commit_def)

text \<open>
  C6. When the provider gave no list, \<open>add_note\<close> adds the raw entry and commits
  outside any handler. On a store that already holds an entry with the content of the
  note the commit raises \<open>IntegrityError\<close>, which reaches the caller: here the note
  \<open>comprar leche\<close> on a store whose first entry has that content. The same commit in
  \<open>_process_single_ai\<close> and in \<open>create_entry\<close> is wrapped in a handler for that error.
  On a store without such an entry the fallback does return the single outcome with
  the new raw entry (\<open>add_note_fallback_fresh\<close>).
\<close>

theorem fallback_raises_on_duplicate_content:
  "add_note ev None note_milk shopping_db = Inl IntegrityError"
proof -
  have "\<exists>x \<in> set (entries shopping_db). content x = note_content note_milk"
    by (simp add: shopping_db_def mk_entry_def note_milk_def)
  then show ?thesis
    by (rule add_note_fallback_duplicate)
qed
















end
